theory Spec2Isabelle
  imports Main
begin

section \<open>JavaScript values and errors\<close>

text \<open>
  Values that reach the code untyped (the result of \<^verbatim>\<open>JSON.parse\<close>, the fields of a
  thrown error) are JSON values. A property that is absent reads as \<^verbatim>\<open>undefined\<close>,
  which is \<open>None\<close> of \<open>json option\<close>. A string is a list of characters, one per
  UTF-16 code unit of the JavaScript string; a number is an integer (the code tests numbers
  for being zero, compares them with \<open>429\<close> and with \<open>5\<close>, and copies the citation
  count).
\<close>

datatype json =
    JNull
  | JBool bool
  | JNum int
  | JStr string
  | JArr "json list"
  | JObj "(string \<times> json) list"

text \<open>The truthiness test of \<^verbatim>\<open>x || d\<close>, \<^verbatim>\<open>x && y\<close> and \<^verbatim>\<open>!x\<close>.\<close>

fun truthy :: "json option \<Rightarrow> bool" where
  "truthy None = False"
| "truthy (Some JNull) = False"
| "truthy (Some (JBool b)) = b"
| "truthy (Some (JNum n)) = (n \<noteq> 0)"
| "truthy (Some (JStr s)) = (s \<noteq> [])"
| "truthy (Some (JArr xs)) = True"
| "truthy (Some (JObj kvs)) = True"

text \<open>\<^verbatim>\<open>s.startsWith(t)\<close> and \<^verbatim>\<open>s.includes(t)\<close> on strings.\<close>

fun startsWith :: "string \<Rightarrow> string \<Rightarrow> bool" where
  "startsWith s [] = True"
| "startsWith [] (c # cs) = False"
| "startsWith (x # xs) (c # cs) = (x = c \<and> startsWith xs cs)"

fun includesStr :: "string \<Rightarrow> string \<Rightarrow> bool" where
  "includesStr [] t = (t = [])"
| "includesStr (x # xs) t = (startsWith (x # xs) t \<or> includesStr xs t)"

text \<open>
  A thrown error: an object with the \<^verbatim>\<open>message\<close>, \<^verbatim>\<open>status\<close> and \<^verbatim>\<open>code\<close> properties
  that the code reads, each of which may be absent. \<open>message\<close> is the message as
  \<^verbatim>\<open>error.message || ''\<close> reads it: the empty string when the property is absent.
  \<open>Error\<close> is \<^verbatim>\<open>new Error(msg)\<close>.
\<close>

record jserror =
  errorMessage :: "string option"
  status :: "json option"
  code :: "json option"

definition message :: "jserror \<Rightarrow> string" where
  "message error = (case errorMessage error of None \<Rightarrow> [] | Some m \<Rightarrow> m)"

definition Error :: "string \<Rightarrow> jserror" where
  "Error msg = \<lparr>errorMessage = Some msg, status = None, code = None\<rparr>"

section \<open>The data model\<close>

text \<open>
  The three closed enumerations of \<^verbatim>\<open>types.ts\<close>, as \<^verbatim>\<open>Object.values\<close> lists them.
\<close>

definition BankingDomain_values :: "string list" where
  "BankingDomain_values =
     [''Portfolio Optimization'', ''Investment Risk Control'', ''Fraud Detection'',
      ''AML Compliance & Control'', ''Customer Servicing (eKYC/CDD)'', ''General Banking AI'']"

definition AIDomain_values :: "string list" where
  "AIDomain_values =
     [''LLM SFT'', ''RLHF'', ''Agent Designing'', ''Agentic AI Pipeline'', ''RAG Systems'',
      ''Predictive Analytics'']"

definition Methodology_values :: "string list" where
  "Methodology_values =
     [''Empirical Study'', ''Theoretical Framework'', ''Case Study'', ''Survey/Review'',
      ''Prototype/Implementation'']"

definition GENERAL_BANKING :: string where
  "GENERAL_BANKING = ''General Banking AI''"

definition PREDICTIVE_ANALYTICS :: string where
  "PREDICTIVE_ANALYTICS = ''Predictive Analytics''"

definition THEORETICAL :: string where
  "THEORETICAL = ''Theoretical Framework''"

text \<open>
  \<^verbatim>\<open>interface Paper\<close>. The sanitizer builds the record with \<^verbatim>\<open>as Paper\<close>, which checks
  nothing at run time: the fields it copies from the raw record without a type test
  (title, abstract, publication date, source, the elements of the tags) hold whatever JSON
  value the raw record had. The fields it computes are typed.
\<close>

record paper =
  ident :: string
  title :: json
  abstract :: json
  authors :: "string list"
  publicationDate :: json
  source :: json
  url :: string
  citationCount :: int
  bankingDomain :: string
  aiDomain :: string
  methodology :: string
  tags :: "json list"
  isFavorite :: bool
  collectedAt :: string

datatype LLMProvider = Gemini | Groq

record LLMSettings =
  provider :: LLMProvider
  groqApiKey :: "string option"
  groqModel :: "string option"

section \<open>The world: clock, identifiers, network log, waits, local storage\<close>

text \<open>
  What a request to a model provider asks for. The prompt text is determined by these
  arguments and the fixed enumerations; the provider is opaque, so the text itself is not
  spelled out. \<open>SearchRequest\<close> carries the query, the sources line and the date line
  (the call with the web-search tool); \<open>KnowledgeBaseRequest\<close> the query and the date;
  \<open>OptimizeRequest\<close> the prompt; \<open>GroqRequest\<close> the key, the model and the messages
  (role and content).
\<close>

datatype request =
    SearchRequest string string string
  | KnowledgeBaseRequest string string
  | OptimizeRequest string
  | GroqRequest string string "(string \<times> string) list"

record response =
  "text" :: "string option"

text \<open>
  Browser local storage, one field per key, each value in parsed form (the code writes
  every value with \<^verbatim>\<open>JSON.stringify\<close> or \<^verbatim>\<open>toString\<close> and reads it back with
  \<^verbatim>\<open>JSON.parse\<close> or \<^verbatim>\<open>parseInt\<close>); \<open>None\<close> is an absent key.
\<close>

record localStorage =
  bankai_papers :: "paper list option"
  bankai_last_batch_run :: "int option"
  bankai_sources :: "string list option"
  bankai_llm_settings :: "LLMSettings option"

text \<open>
  The mutable world: the clock in milliseconds, the number of identifiers generated, the
  requests sent to a provider (oldest first), the delays awaited (oldest first) and local
  storage.
\<close>

record world =
  clock :: int
  nextId :: nat
  requests :: "request list"
  waits :: "nat list"
  storage :: localStorage

text \<open>
  \<^verbatim>\<open>await delay(ms)\<close>: the wait is logged and the clock advances. Time passes only
  here: a request to a provider and a computation take no time.
\<close>

definition delay :: "nat \<Rightarrow> world \<Rightarrow> world" where
  "delay ms w = w\<lparr>clock := clock w + int ms, waits := waits w @ [ms]\<rparr>"

text \<open>
  The run-time environment, fixed during a run: whether the module-level client \<^verbatim>\<open>ai\<close>
  was created (an API key was configured), the outcome of the \<open>k\<close>-th request to each
  provider, the \<open>k\<close>-th generated identifier, the random index that picks the batch
  job's domain, and the library functions of JavaScript that the code calls and that are
  not part of the repository.
\<close>

datatype groq_outcome =
    Threw string
  | NotOk "string option" string
  | Completed "string option"

record env =
  ai :: bool
  generateContent :: "nat \<Rightarrow> request \<Rightarrow> jserror + response"
  groqFetch :: "nat \<Rightarrow> request \<Rightarrow> groq_outcome"
  randomUUID :: "nat \<Rightarrow> string"
  randomIndex :: nat
  String_of :: "json \<Rightarrow> string"
  trim :: "string \<Rightarrow> string"
  toLowerCase :: "string \<Rightarrow> string"
  toNumber :: "string \<Rightarrow> int option"
  encodeURIComponent :: "string \<Rightarrow> string option"
  dateParse :: "json \<Rightarrow> int option"
  toISOString :: "int \<Rightarrow> string"
  addHours24 :: "int \<Rightarrow> int"
  subMonth :: "int \<Rightarrow> int"
  JSON_parse :: "string \<Rightarrow> jserror + json"
  matchJsonFence :: "string \<Rightarrow> string option"
  matchFence :: "string \<Rightarrow> string option"
  removeFences :: "string \<Rightarrow> string"

text \<open>
  The library functions, by field: \<open>String_of\<close> is \<^verbatim>\<open>String(v)\<close> on a value that is not a
  string; \<open>trim\<close> and \<open>toLowerCase\<close> are the string methods; \<open>toNumber\<close> is the
  conversion of a string to a number by \<^verbatim>\<open><\<close> (\<open>None\<close> is \<^verbatim>\<open>NaN\<close>);
  \<open>encodeURIComponent\<close> is \<open>None\<close> where the function throws; \<open>dateParse\<close> is
  \<^verbatim>\<open>new Date(v).getTime()\<close> (\<open>None\<close> is \<^verbatim>\<open>NaN\<close>); \<open>toISOString\<close> is
  \<^verbatim>\<open>new Date(t).toISOString()\<close>, for a time in the range of \<^verbatim>\<open>Date\<close>; \<open>addHours24\<close> and
  \<open>subMonth\<close> are the time after \<^verbatim>\<open>setHours(getHours() + 24)\<close> and after
  \<^verbatim>\<open>setMonth(getMonth() - 1)\<close>; \<open>JSON_parse\<close> returns the parsed value or the syntax error
  thrown; \<open>matchJsonFence\<close>, \<open>matchFence\<close> and \<open>removeFences\<close> are the regular
  expression calls of the extraction step.
\<close>

section \<open>The retry wrapper\<close>

text \<open>
  \<^verbatim>\<open>const isTransient = msg.includes('429') || error.status === 429
       || error.code === 429 || msg.includes('503');\<close>
\<close>

definition isTransient :: "jserror \<Rightarrow> bool" where
  "isTransient error \<longleftrightarrow>
     includesStr (message error) ''429'' \<or> status error = Some (JNum 429)
     \<or> code error = Some (JNum 429) \<or> includesStr (message error) ''503''"

text \<open>
  \<^verbatim>\<open>retryOperation(operation, retries = 2, initialDelay = 20000)\<close>. An asynchronous
  operation is a function of the world that returns its outcome (\<open>Inl\<close> the thrown
  error, \<open>Inr\<close> the value) and the world it leaves.
\<close>

type_synonym 'a operation = "world \<Rightarrow> (jserror + 'a) \<times> world"

function retryOperation ::
  "'a operation \<Rightarrow> int \<Rightarrow> nat \<Rightarrow> 'a operation" where
  "retryOperation operation retries initialDelay w =
     (case operation w of
        (Inr v, w1) \<Rightarrow> (Inr v, w1)
      | (Inl error, w1) \<Rightarrow>
          if retries > 0 \<and> isTransient error
          then retryOperation operation (retries - 1) (initialDelay * 2) (delay initialDelay w1)
          else (Inl error, w1))"
  by pat_completeness auto
termination
  by (relation "measure (\<lambda>(operation, retries, initialDelay, w). nat retries)") auto

section \<open>The sanitizer\<close>

text \<open>
  Reading a property of a raw record: the value of the key in an object (the last one when
  the key is repeated, as \<^verbatim>\<open>JSON.parse\<close> keeps it), \<^verbatim>\<open>undefined\<close> on a boolean, number,
  string or array (none of the names read is a property of those). Reading a property of
  \<^verbatim>\<open>null\<close> throws; \<open>mapPapers\<close> handles that case before it reads.
\<close>

fun getProp :: "json \<Rightarrow> string \<Rightarrow> json option" where
  "getProp (JObj kvs) k = map_of (rev kvs) k"
| "getProp v k = None"

text \<open>\<^verbatim>\<open>String(v)\<close>: a string is itself, any other value is converted by the library.\<close>

definition toStr :: "env \<Rightarrow> json \<Rightarrow> string" where
  "toStr E v = (case v of JStr s \<Rightarrow> s | _ \<Rightarrow> String_of E v)"

text \<open>\<^verbatim>\<open>s.split(',')\<close>.\<close>

fun splitComma :: "string \<Rightarrow> string list" where
  "splitComma [] = [[]]"
| "splitComma (c # cs) =
     (if c = CHR '','' then [] # splitComma cs
      else (case splitComma cs of [] \<Rightarrow> [[c]] | x # xs \<Rightarrow> (c # x) # xs))"

definition safeAuthors :: "env \<Rightarrow> json \<Rightarrow> string list" where
  "safeAuthors E p =
     (let as =
        (case getProp p ''authors'' of
           Some (JArr xs) \<Rightarrow> filter (\<lambda>a. length a > 0) (map (\<lambda>a. trim E (toStr E a)) xs)
         | Some (JStr s) \<Rightarrow>
             if includesStr s '','' then map (trim E) (splitComma s) else [trim E s]
         | _ \<Rightarrow> [''Unknown Author''])
      in if length as = 0 then [''Unknown Author''] else as)"

text \<open>
  \<^verbatim>\<open>Object.values(BankingDomain).includes(p.bankingDomain) ? p.bankingDomain
     : BankingDomain.GENERAL_BANKING\<close>, for each of the three enumerations.
\<close>

definition validEnum :: "string list \<Rightarrow> string \<Rightarrow> json option \<Rightarrow> string" where
  "validEnum members dflt v =
     (case v of Some (JStr s) \<Rightarrow> if s \<in> set members then s else dflt | _ \<Rightarrow> dflt)"

text \<open>\<^verbatim>\<open>v || d\<close>.\<close>

definition orElse :: "json option \<Rightarrow> json \<Rightarrow> json" where
  "orElse v d = (case v of None \<Rightarrow> d | Some x \<Rightarrow> if truthy (Some x) then x else d)"

text \<open>\<^verbatim>\<open>toISOString().split('T')[0]\<close>.\<close>

definition isoDate :: "env \<Rightarrow> int \<Rightarrow> string" where
  "isoDate E t = takeWhile (\<lambda>c. c \<noteq> CHR ''T'') (toISOString E t)"

text \<open>
  \<^verbatim>\<open>p.url && p.url.startsWith('http') ? p.url : `https://scholar.google.com/scholar?q=...`\<close>.
  A truthy \<^verbatim>\<open>url\<close> that is not a string has no \<^verbatim>\<open>startsWith\<close> method, and the call
  throws; \<^verbatim>\<open>encodeURIComponent\<close> throws on a malformed string.
\<close>

definition safeUrl :: "env \<Rightarrow> json \<Rightarrow> jserror + string" where
  "safeUrl E p =
     (let synthesized =
        (case encodeURIComponent E (toStr E (orElse (getProp p ''title'') (JStr []))) of
           None \<Rightarrow> Inl (Error ''URI malformed'')
         | Some q \<Rightarrow> Inr (''https://scholar.google.com/scholar?q='' @ q))
      in case getProp p ''url'' of
           Some (JStr s) \<Rightarrow> if s \<noteq> [] \<and> startsWith s ''http'' then Inr s else synthesized
         | u \<Rightarrow> if truthy u then Inl (Error ''p.url.startsWith is not a function'')
                else synthesized)"

text \<open>The callback of \<^verbatim>\<open>papers.map\<close>, for a record that is not \<^verbatim>\<open>null\<close>.\<close>

definition sanitizeRecord :: "env \<Rightarrow> int \<Rightarrow> string \<Rightarrow> json \<Rightarrow> jserror + paper" where
  "sanitizeRecord E now newId p =
     (case safeUrl E p of
        Inl e \<Rightarrow> Inl e
      | Inr u \<Rightarrow> Inr
         \<lparr>ident = newId,
          title = orElse (getProp p ''title'') (JStr ''Untitled Research''),
          abstract = orElse (getProp p ''abstract'') (JStr ''No abstract available.''),
          authors = safeAuthors E p,
          publicationDate = orElse (getProp p ''publicationDate'') (JStr (isoDate E now)),
          source = orElse (getProp p ''source'') (JStr ''Web''),
          url = u,
          citationCount = (case getProp p ''citationCount'' of Some (JNum n) \<Rightarrow> n | _ \<Rightarrow> 0),
          bankingDomain = validEnum BankingDomain_values GENERAL_BANKING (getProp p ''bankingDomain''),
          aiDomain = validEnum AIDomain_values PREDICTIVE_ANALYTICS (getProp p ''aiDomain''),
          methodology = validEnum Methodology_values THEORETICAL (getProp p ''methodology''),
          tags = (case getProp p ''tags'' of Some (JArr ts) \<Rightarrow> ts | _ \<Rightarrow> []),
          isFavorite = False,
          collectedAt = toISOString E now\<rparr>)"

text \<open>
  \<^verbatim>\<open>generateId()\<close>: the next identifier of the environment's supply (a random UUID, or
  random digits and the time where \<^verbatim>\<open>crypto.randomUUID\<close> is missing).
\<close>

definition generateId :: "env \<Rightarrow> world \<Rightarrow> string \<times> world" where
  "generateId E w = (randomUUID E (nextId w), w\<lparr>nextId := Suc (nextId w)\<rparr>)"

text \<open>
  \<^verbatim>\<open>papers.map(...)\<close>: the records in order, one fresh identifier each; the first record
  whose callback throws ends the call with that error.
\<close>

fun mapPapers :: "env \<Rightarrow> json list \<Rightarrow> world \<Rightarrow> (jserror + paper list) \<times> world" where
  "mapPapers E [] w = (Inr [], w)"
| "mapPapers E (p # ps) w =
     (if p = JNull then (Inl (Error ''Cannot read properties of null (reading authors)''), w)
      else
        (case generateId E w of
           (newId, w1) \<Rightarrow>
             (case sanitizeRecord E (clock w) newId p of
                Inl e \<Rightarrow> (Inl e, w1)
              | Inr q \<Rightarrow>
                  (case mapPapers E ps w1 of
                     (Inl e, w2) \<Rightarrow> (Inl e, w2)
                   | (Inr qs, w2) \<Rightarrow> (Inr (q # qs), w2)))))"

text \<open>
  \<^verbatim>\<open>p.title.length < 5\<close>. A string and an array have a length; an object has the value
  of its \<^verbatim>\<open>length\<close> key, if any, converted to a number by the comparison; a number and a
  boolean have none, and \<^verbatim>\<open>undefined < 5\<close> is false. (The title here is never
  \<^verbatim>\<open>null\<close>: it is truthy or the placeholder.)
\<close>

definition lessThan5 :: "env \<Rightarrow> json \<Rightarrow> bool" where
  "lessThan5 E v =
     (case v of
        JNum n \<Rightarrow> n < 5
      | JNull \<Rightarrow> True
      | JBool b \<Rightarrow> True
      | _ \<Rightarrow> (case toNumber E (toStr E v) of None \<Rightarrow> False | Some n \<Rightarrow> n < 5))"

definition titleTooShort :: "env \<Rightarrow> json \<Rightarrow> bool" where
  "titleTooShort E t =
     (case t of
        JStr s \<Rightarrow> length s < 5
      | JArr xs \<Rightarrow> length xs < 5
      | JObj kvs \<Rightarrow> (case map_of (rev kvs) ''length'' of None \<Rightarrow> False | Some v \<Rightarrow> lessThan5 E v)
      | _ \<Rightarrow> False)"

text \<open>
  The callback of \<^verbatim>\<open>.filter\<close>: a record is kept unless its title is short or the
  placeholder, or its publication date parses and lies after \<open>horizon\<close>, the time of the
  call plus 24 hours.
\<close>

definition keepPaper :: "env \<Rightarrow> int \<Rightarrow> paper \<Rightarrow> bool" where
  "keepPaper E horizon p =
     (if titleTooShort E (title p) \<or> title p = JStr ''Untitled Research'' then False
      else (case dateParse E (publicationDate p) of
              Some pubDate \<Rightarrow> if pubDate > horizon then False else True
            | None \<Rightarrow> True))"

definition sanitizePapers :: "env \<Rightarrow> json list \<Rightarrow> world \<Rightarrow> (jserror + paper list) \<times> world" where
  "sanitizePapers E papers w =
     (let now = addHours24 E (clock w) in
      case mapPapers E papers w of
        (Inl e, w1) \<Rightarrow> (Inl e, w1)
      | (Inr qs, w1) \<Rightarrow> (Inr (filter (keepPaper E now) qs), w1))"

section \<open>The storage service\<close>

text \<open>
  \<^verbatim>\<open>getPapers\<close>: an absent key reads as the empty list; every record read gets a
  default title and abstract when the stored one is falsy (\<open>readPaper\<close>, the callback of
  \<^verbatim>\<open>parsed.map\<close>). (The stored value is a list of
  \<open>paper\<close> records here, so the branches for text that does not parse, for a value
  that is not an array and for authors or tags that are not arrays do not arise.)
\<close>

definition readPaper :: "paper \<Rightarrow> paper" where
  "readPaper p =
     p\<lparr>title := orElse (Some (title p)) (JStr ''Untitled''),
       abstract := orElse (Some (abstract p)) (JStr ''No abstract'')\<rparr>"

definition getPapers :: "world \<Rightarrow> paper list" where
  "getPapers w =
     (case bankai_papers (storage w) of
        None \<Rightarrow> []
      | Some parsed \<Rightarrow> map readPaper parsed)"

definition setPapers :: "paper list \<Rightarrow> world \<Rightarrow> world" where
  "setPapers updated w = w\<lparr>storage := (storage w)\<lparr>bankai_papers := Some updated\<rparr>\<rparr>"

text \<open>
  The test of \<^verbatim>\<open>papers.some(...)\<close> in \<^verbatim>\<open>savePaper\<close>, record by record: a title
  that is not a string has no \<^verbatim>\<open>toLowerCase\<close> method, and the call throws.
\<close>

fun isDuplicate :: "env \<Rightarrow> paper \<Rightarrow> paper list \<Rightarrow> jserror + bool" where
  "isDuplicate E paper [] = Inr False"
| "isDuplicate E paper (p # ps) =
     (case title p of
        JStr a \<Rightarrow>
          (case title paper of
             JStr b \<Rightarrow>
               if toLowerCase E a = toLowerCase E b
                  \<or> (url p \<noteq> [] \<and> url paper \<noteq> [] \<and> url p = url paper)
               then Inr True
               else isDuplicate E paper ps
           | _ \<Rightarrow> Inl (Error ''paper.title.toLowerCase is not a function''))
      | _ \<Rightarrow> Inl (Error ''p.title.toLowerCase is not a function''))"

definition savePaper :: "env \<Rightarrow> paper \<Rightarrow> world \<Rightarrow> (jserror + bool) \<times> world" where
  "savePaper E paper w =
     (let papers = getPapers w in
      case isDuplicate E paper papers of
        Inl e \<Rightarrow> (Inl e, w)
      | Inr True \<Rightarrow> (Inr False, w)
      | Inr False \<Rightarrow> (Inr True, setPapers (paper # papers) w))"

text \<open>The callback of \<^verbatim>\<open>papers.map\<close> in \<^verbatim>\<open>toggleFavorite\<close>.\<close>

definition toggleOne :: "string \<Rightarrow> paper \<Rightarrow> paper" where
  "toggleOne i p = (if ident p = i then p\<lparr>isFavorite := \<not> isFavorite p\<rparr> else p)"

definition toggleFavorite :: "string \<Rightarrow> world \<Rightarrow> paper list \<times> world" where
  "toggleFavorite i w =
     (let papers = getPapers w;
          updated = map (toggleOne i) papers
      in (updated, setPapers updated w))"

definition getLastBatchRun :: "world \<Rightarrow> int" where
  "getLastBatchRun w = (case bankai_last_batch_run (storage w) of None \<Rightarrow> 0 | Some t \<Rightarrow> t)"

definition setLastBatchRun :: "int \<Rightarrow> world \<Rightarrow> world" where
  "setLastBatchRun timestamp w =
     w\<lparr>storage := (storage w)\<lparr>bankai_last_batch_run := Some timestamp\<rparr>\<rparr>"

definition DEFAULT_SOURCES :: "string list" where
  "DEFAULT_SOURCES =
     [''ArXiv'', ''Google Scholar'', ''IEEE Xplore'', ''SSRN'', ''ACM Digital Library'']"

definition getSources :: "world \<Rightarrow> string list" where
  "getSources w = (case bankai_sources (storage w) of None \<Rightarrow> DEFAULT_SOURCES | Some ss \<Rightarrow> ss)"

definition DEFAULT_SETTINGS :: LLMSettings where
  "DEFAULT_SETTINGS = \<lparr>provider = Gemini, groqApiKey = None, groqModel = Some ''llama3-70b-8192''\<rparr>"

text \<open>
  \<^verbatim>\<open>{ ...DEFAULT_SETTINGS, ...JSON.parse(stored) }\<close>: a key of the stored object wins; the
  stored object has no \<^verbatim>\<open>groqModel\<close> key when the saved settings had none.
\<close>

definition getSettings :: "world \<Rightarrow> LLMSettings" where
  "getSettings w =
     (case bankai_llm_settings (storage w) of
        None \<Rightarrow> DEFAULT_SETTINGS
      | Some s \<Rightarrow>
          \<lparr>provider = provider s,
           groqApiKey = groqApiKey s,
           groqModel = (case groqModel s of None \<Rightarrow> groqModel DEFAULT_SETTINGS | Some m \<Rightarrow> Some m)\<rparr>)"

section \<open>Calls to the providers\<close>

text \<open>
  \<^verbatim>\<open>ai.models.generateContent(...)\<close>: the request is logged and its outcome is the one
  the environment fixes for the request of that number.
\<close>

definition callModel :: "env \<Rightarrow> request \<Rightarrow> response operation" where
  "callModel E req w =
     (generateContent E (length (requests w)) req, w\<lparr>requests := requests w @ [req]\<rparr>)"

text \<open>\<^verbatim>\<open>x || d\<close> on an optional string.\<close>

definition strOr :: "string option \<Rightarrow> string \<Rightarrow> string" where
  "strOr v d = (case v of None \<Rightarrow> d | Some s \<Rightarrow> if s = [] then d else s)"

text \<open>
  \<^verbatim>\<open>callGroqAPI\<close>. Inside its \<^verbatim>\<open>try\<close> the outcome of the request is one of: an
  exception with message \<open>m\<close> (from \<^verbatim>\<open>fetch\<close>, from reading the body or from reading
  the reply), a reply that is not \<^verbatim>\<open>ok\<close> with the body's error message and the status
  text, or a reply with the content of its first choice. The function returns a string in
  every case.
\<close>

definition callGroqAPI ::
  "env \<Rightarrow> (string \<times> string) list \<Rightarrow> LLMSettings \<Rightarrow> world \<Rightarrow> string \<times> world" where
  "callGroqAPI E messages settings w =
     (if strOr (groqApiKey settings) [] = [] then (''Error: Groq API Key is missing in Settings.'', w)
      else
        (let req = GroqRequest (strOr (groqApiKey settings) [])
                     (strOr (groqModel settings) ''llama3-70b-8192'') messages;
             w1 = w\<lparr>requests := requests w @ [req]\<rparr>
         in case groqFetch E (length (requests w)) req of
              Threw m \<Rightarrow> (''Provider Error: '' @ m, w1)
            | NotOk errMessage statusText \<Rightarrow>
                (''Provider Error: '' @ (''Groq API Error: '' @ strOr errMessage statusText), w1)
            | Completed content \<Rightarrow> (strOr content [], w1)))"

definition optimizePrompt :: "string \<Rightarrow> string \<Rightarrow> string" where
  "optimizePrompt topic dateRange =
     ''Refine into boolean search query for Google Scholar. Topic: '' @ [CHR 0x22] @ topic
     @ [CHR 0x22] @ '', Date: '' @ [CHR 0x22] @ dateRange @ [CHR 0x22] @ ''. Return ONLY query.''"

definition optimizeSearchQuery :: "env \<Rightarrow> string \<Rightarrow> string \<Rightarrow> world \<Rightarrow> string \<times> world" where
  "optimizeSearchQuery E topic dateRange w =
     (let settings = getSettings w;
          prompt = optimizePrompt topic dateRange
      in if provider settings = Groq then callGroqAPI E [(''user'', prompt)] settings w
         else if \<not> ai E then (topic, w)
         else (case callModel E (OptimizeRequest prompt) w of
                 (Inl error, w1) \<Rightarrow> (topic, w1)
               | (Inr response, w1) \<Rightarrow>
                   (strOr (map_option (trim E) (text response)) topic, w1)))"

section \<open>The collection pipeline\<close>

text \<open>
  The operation that both collection calls hand to \<open>retryOperation\<close>:
  \<^verbatim>\<open>async () => { if (!ai) throw new Error("No AI"); return await ai.models.generateContent(...) }\<close>.
\<close>

definition modelOperation :: "env \<Rightarrow> request \<Rightarrow> response operation" where
  "modelOperation E req w = (if \<not> ai E then (Inl (Error ''No AI''), w) else callModel E req w)"

text \<open>
  The \<^verbatim>\<open>catch\<close> of \<^verbatim>\<open>collectPapersFromKnowledgeBase\<close>:
  \<^verbatim>\<open>if ((e as any).message?.includes('429')) throw e; return [];\<close>
\<close>

definition kbCatch :: "jserror \<Rightarrow> world \<Rightarrow> (jserror + paper list) \<times> world" where
  "kbCatch e w = (if includesStr (message e) ''429'' then (Inl e, w) else (Inr [], w))"

text \<open>
  \<^verbatim>\<open>collectPapersFromKnowledgeBase(query, afterDate)\<close>, in two parts: what the
  \<^verbatim>\<open>try\<close> does with the reply once the call has returned one, and the whole function.
  The parsed reply goes to \<^verbatim>\<open>sanitizePapers\<close> unchecked; when it is not an array,
  \<^verbatim>\<open>papers.map\<close> is not a function and the call throws inside the \<^verbatim>\<open>try\<close>.
\<close>

definition knowledgeBaseExtract ::
  "env \<Rightarrow> response \<Rightarrow> world \<Rightarrow> (jserror + paper list) \<times> world" where
  "knowledgeBaseExtract E response w1 =
     (if strOr (text response) [] = [] then (Inr [], w1)
      else
        (case JSON_parse E (trim E (strOr (text response) [])) of
           Inl e \<Rightarrow> kbCatch e w1
         | Inr (JArr rawData) \<Rightarrow>
             (case sanitizePapers E rawData w1 of
                (Inl e, w2) \<Rightarrow> kbCatch e w2
              | (Inr ps, w2) \<Rightarrow> (Inr ps, w2))
         | Inr _ \<Rightarrow> kbCatch (Error ''papers.map is not a function'') w1))"

definition collectPapersFromKnowledgeBase ::
  "env \<Rightarrow> string \<Rightarrow> string option \<Rightarrow> world \<Rightarrow> (jserror + paper list) \<times> world" where
  "collectPapersFromKnowledgeBase E query afterDate w =
     (if \<not> ai E then (Inr [], w)
      else
        (case retryOperation
                (modelOperation E (KnowledgeBaseRequest query (strOr afterDate ''2023-01-01'')))
                1 5000 w of
           (Inl e, w1) \<Rightarrow> kbCatch e w1
         | (Inr response, w1) \<Rightarrow> knowledgeBaseExtract E response w1))"

text \<open>\<^verbatim>\<open>sources.join(', ')\<close>.\<close>

fun joinComma :: "string list \<Rightarrow> string" where
  "joinComma [] = []"
| "joinComma [s] = s"
| "joinComma (s # t # ss) = s @ '', '' @ joinComma (t # ss)"

definition sourceStr :: "string list \<Rightarrow> string" where
  "sourceStr sources =
     (if length sources > 0 then ''Sources: '' @ joinComma sources
      else ''Sources: Reputable Technical Journals/ArXiv'')"

definition dateStr :: "string option \<Rightarrow> string" where
  "dateStr afterDate =
     (case afterDate of
        None \<Rightarrow> ''Recent publications''
      | Some d \<Rightarrow> if d = [] then ''Recent publications'' else ''Published strictly AFTER: '' @ d)"

text \<open>
  The text handed to \<^verbatim>\<open>JSON.parse\<close> after the search:
  \<^verbatim>\<open>const jsonMatch = text.match(/```json\s*([\s\S]*?)\s*```/) || text.match(/```\s*([\s\S]*?)\s*```/);
  const jsonStr = jsonMatch ? jsonMatch[1] : text.replace(/```/g, '');\<close>
  \<open>matchJsonFence\<close> and \<open>matchFence\<close> are the first group of the two matches
  (\<open>None\<close> when there is no match), \<open>removeFences\<close> the replacement.
\<close>

definition fencedJson :: "env \<Rightarrow> string \<Rightarrow> string" where
  "fencedJson E t =
     (case matchJsonFence E t of
        Some g \<Rightarrow> g
      | None \<Rightarrow> (case matchFence E t of Some g \<Rightarrow> g | None \<Rightarrow> removeFences E t))"

text \<open>
  The body of the outer \<^verbatim>\<open>try\<close> of \<^verbatim>\<open>collectPapersFromWeb\<close>. Every error that leaves
  this body, the one of the knowledge-base call after a parse failure included, reaches the
  \<^verbatim>\<open>catch\<close> below.
\<close>

definition searchAndExtract ::
  "env \<Rightarrow> string \<Rightarrow> string list \<Rightarrow> string option \<Rightarrow> world \<Rightarrow> (jserror + paper list) \<times> world" where
  "searchAndExtract E query sources afterDate w =
     (case retryOperation
             (modelOperation E (SearchRequest query (sourceStr sources) (dateStr afterDate)))
             2 20000 w of
        (Inl e, w1) \<Rightarrow> (Inl e, w1)
      | (Inr response, w1) \<Rightarrow>
          if strOr (text response) [] = [] then (Inl (Error ''Empty response from AI model''), w1)
          else
            (case JSON_parse E (fencedJson E (strOr (text response) [])) of
               Inl e \<Rightarrow> collectPapersFromKnowledgeBase E query afterDate w1
             | Inr (JArr rawData) \<Rightarrow> sanitizePapers E rawData w1
             | Inr _ \<Rightarrow> (Inr [], w1)))"

text \<open>\<^verbatim>\<open>const isQuota = msg.includes('429') || error.code === 429;\<close>\<close>

definition isQuota :: "jserror \<Rightarrow> bool" where
  "isQuota error \<longleftrightarrow> includesStr (message error) ''429'' \<or> code error = Some (JNum 429)"

definition quotaExceeded :: jserror where
  "quotaExceeded =
     Error (''Quota Exceeded (429): The research agent has hit the daily/minute limit. ''
            @ ''Please try again later.'')"

definition collectPapersFromWeb ::
  "env \<Rightarrow> string \<Rightarrow> string list \<Rightarrow> string option \<Rightarrow> world \<Rightarrow> (jserror + paper list) \<times> world" where
  "collectPapersFromWeb E query sources afterDate w =
     (if \<not> ai E then (Inl (Error ''API Key not configured.''), w)
      else
        (case searchAndExtract E query sources afterDate w of
           (Inr ps, w1) \<Rightarrow> (Inr ps, w1)
         | (Inl error, w1) \<Rightarrow>
             if isQuota error then (Inl quotaExceeded, w1)
             else
               (case collectPapersFromKnowledgeBase E query afterDate w1 of
                  (Inr ps, w2) \<Rightarrow> (Inr ps, w2)
                | (Inl kbError, w2) \<Rightarrow> (Inl error, w2))))"

section \<open>The daily batch job\<close>

text \<open>
  The inner loop \<^verbatim>\<open>for (const p of fullPapers)\<close>: the count of saved papers so far, and
  the error that ends the loop when \<^verbatim>\<open>savePaper\<close> throws.
\<close>

fun saveAll :: "env \<Rightarrow> paper list \<Rightarrow> nat \<Rightarrow> world \<Rightarrow> (jserror option \<times> nat) \<times> world" where
  "saveAll E [] totalNewCount w = ((None, totalNewCount), w)"
| "saveAll E (p # ps) totalNewCount w =
     (case savePaper E p w of
        (Inl e, w1) \<Rightarrow> ((Some e, totalNewCount), w1)
      | (Inr saved, w1) \<Rightarrow> saveAll E ps (if saved then totalNewCount + 1 else totalNewCount) w1)"

text \<open>
  The test of the inner \<^verbatim>\<open>catch\<close>,
  \<^verbatim>\<open>e.message.includes('Quota') || e.message.includes('429')\<close>: it throws a type error
  itself when the error caught has no message.
\<close>

definition stopsBatch :: "jserror \<Rightarrow> jserror + bool" where
  "stopsBatch e =
     (case errorMessage e of
        None \<Rightarrow> Inl (Error ''Cannot read properties of undefined (reading includes)'')
      | Some m \<Rightarrow> Inr (includesStr m ''Quota'' \<or> includesStr m ''429''))"

text \<open>
  The loop \<^verbatim>\<open>for (const domain of domains)\<close> with its inner \<^verbatim>\<open>try\<close>: it stops after a
  domain that gave papers and after an error whose message contains \<^verbatim>\<open>Quota\<close> or
  \<^verbatim>\<open>429\<close>; any other error with a message is dropped and the next domain is tried. The
  result is the count so far and, when the test of the inner \<^verbatim>\<open>catch\<close> threw, the error
  that left the loop.
\<close>

fun collectDomains ::
  "env \<Rightarrow> string list \<Rightarrow> string list \<Rightarrow> string \<Rightarrow> nat \<Rightarrow> world
     \<Rightarrow> (jserror option \<times> nat) \<times> world" where
  "collectDomains E [] sources afterDate totalNewCount w = ((None, totalNewCount), w)"
| "collectDomains E (domain # domains) sources afterDate totalNewCount w =
     (let query = ''Latest technical research in '' @ domain @ '' using Generative AI and LLMs''
      in case collectPapersFromWeb E query sources (Some afterDate) w of
           (Inl e, w1) \<Rightarrow>
             (case stopsBatch e of
                Inl thrown \<Rightarrow> ((Some thrown, totalNewCount), w1)
              | Inr True \<Rightarrow> ((None, totalNewCount), w1)
              | Inr False \<Rightarrow> collectDomains E domains sources afterDate totalNewCount w1)
         | (Inr fullPapers, w1) \<Rightarrow>
             (case saveAll E fullPapers totalNewCount w1 of
                ((Some e, n), w2) \<Rightarrow>
                  (case stopsBatch e of
                     Inl thrown \<Rightarrow> ((Some thrown, n), w2)
                   | Inr True \<Rightarrow> ((None, n), w2)
                   | Inr False \<Rightarrow> collectDomains E domains sources afterDate n w2)
              | ((None, n), w2) \<Rightarrow>
                  if length fullPapers > 0 then ((None, n), w2)
                  else collectDomains E domains sources afterDate n w2))"

definition ONE_DAY_MS :: int where
  "ONE_DAY_MS = 24 * 60 * 60 * 1000"

text \<open>
  \<^verbatim>\<open>runDailyBatchJob\<close>. The domain list is one element of the enumeration, the one the
  random sort puts first. When the loop ends, the time of the start is stored and the count
  returned; when an error left the loop, the outer \<^verbatim>\<open>catch\<close> returns the count and
  the time is not stored.
\<close>

definition runDailyBatchJob :: "env \<Rightarrow> world \<Rightarrow> nat \<times> world" where
  "runDailyBatchJob E w =
     (let lastRunTimestamp = getLastBatchRun w;
          now = clock w
      in if now - lastRunTimestamp < ONE_DAY_MS \<and> lastRunTimestamp \<noteq> 0 then (0, w)
         else
           (let w1 = delay 20000 w;
                afterDate =
                  (if lastRunTimestamp > 0 then isoDate E lastRunTimestamp
                   else isoDate E (subMonth E (clock w1)));
                domains = [BankingDomain_values ! (randomIndex E mod length BankingDomain_values)];
                sources = getSources w1
            in case collectDomains E domains sources afterDate 0 w1 of
                 ((None, totalNewCount), w2) \<Rightarrow> (totalNewCount, setLastBatchRun now w2)
               | ((Some e, totalNewCount), w2) \<Rightarrow> (totalNewCount, w2)))"

section \<open>Predicates and examples used in the statements\<close>

text \<open>
  An error with a 429 signature: the message contains \<^verbatim>\<open>429\<close>, or the status or the code
  is the number 429.
\<close>

definition signature429 :: "jserror \<Rightarrow> bool" where
  "signature429 e \<longleftrightarrow>
     includesStr (message e) ''429'' \<or> status e = Some (JNum 429) \<or> code e = Some (JNum 429)"

text \<open>
  A concrete world and environment for the examples: empty storage, a configured client,
  a provider that answers every request with an empty reply, and simple stand-ins for the
  library functions.
\<close>

definition emptyStorage :: localStorage where
  "emptyStorage =
     \<lparr>bankai_papers = None, bankai_last_batch_run = None, bankai_sources = None,
      bankai_llm_settings = None\<rparr>"

definition world0 :: world where
  "world0 = \<lparr>clock = 0, nextId = 0, requests = [], waits = [], storage = emptyStorage\<rparr>"

definition asciiLower :: "string \<Rightarrow> string" where
  "asciiLower s =
     map (\<lambda>c. case map_of (zip ''ABCDEFGHIJKLMNOPQRSTUVWXYZ'' ''abcdefghijklmnopqrstuvwxyz'') c of
                None \<Rightarrow> c | Some l \<Rightarrow> l) s"

definition exampleEnv :: env where
  "exampleEnv =
     \<lparr>ai = True,
      generateContent = (\<lambda>k req. Inr \<lparr>text = None\<rparr>),
      groqFetch = (\<lambda>k req. Completed None),
      randomUUID = (\<lambda>k. replicate (Suc k) (CHR ''u'')),
      randomIndex = 0,
      String_of = (\<lambda>v. ''[object Object]''),
      trim = (\<lambda>s. s),
      toLowerCase = asciiLower,
      toNumber = (\<lambda>s. None),
      encodeURIComponent = (\<lambda>s. Some s),
      dateParse = (\<lambda>v. None),
      toISOString = (\<lambda>t. ''2026-01-01T00:00:00.000Z''),
      addHours24 = (\<lambda>t. t + 86400000),
      subMonth = (\<lambda>t. t - 2592000000),
      JSON_parse = (\<lambda>s. Inl (Error ''Unexpected token'')),
      matchJsonFence = (\<lambda>s. None),
      matchFence = (\<lambda>s. None),
      removeFences = (\<lambda>s. s)\<rparr>"

definition tooManyRequests :: jserror where
  "tooManyRequests = \<lparr>errorMessage = Some ''429 Too Many Requests'', status = Some (JNum 429), code = None\<rparr>"

text \<open>A provider that is rate limited on its first two requests and then answers.\<close>

definition twiceLimitedEnv :: env where
  "twiceLimitedEnv =
     exampleEnv\<lparr>generateContent :=
       (\<lambda>k req. if k < 2 then Inl tooManyRequests else Inr \<lparr>text = Some ''[]''\<rparr>)\<rparr>"

text \<open>A provider that is rate limited on every request.\<close>

definition alwaysLimitedEnv :: env where
  "alwaysLimitedEnv = exampleEnv\<lparr>generateContent := (\<lambda>k req. Inl tooManyRequests)\<rparr>"

text \<open>
  A provider whose first reply is an overload error that carries the status 503 and a
  message without the digits, and that answers from the second request on.
\<close>

definition serviceUnavailable :: jserror where
  "serviceUnavailable = \<lparr>errorMessage = Some ''Service Unavailable'', status = Some (JNum 503), code = None\<rparr>"

definition overloadedOnceEnv :: env where
  "overloadedOnceEnv =
     exampleEnv\<lparr>generateContent :=
       (\<lambda>k req. if k = 0 then Inl serviceUnavailable else Inr \<lparr>text = Some ''[]''\<rparr>)\<rparr>"

text \<open>
  The uniqueness constraint of the store, in the words of the specification: two records
  have the same title when both titles are strings that are equal case-insensitively, and
  the same URL when both URLs are non-empty and identical.
\<close>

definition isString :: "json \<Rightarrow> bool" where
  "isString v = (case v of JStr s \<Rightarrow> True | _ \<Rightarrow> False)"

definition sameTitle :: "env \<Rightarrow> paper \<Rightarrow> paper \<Rightarrow> bool" where
  "sameTitle E p q =
     (case title p of
        JStr a \<Rightarrow> (case title q of JStr b \<Rightarrow> toLowerCase E a = toLowerCase E b | _ \<Rightarrow> False)
      | _ \<Rightarrow> False)"

definition sameUrl :: "paper \<Rightarrow> paper \<Rightarrow> bool" where
  "sameUrl p q \<longleftrightarrow> url p \<noteq> [] \<and> url q \<noteq> [] \<and> url p = url q"

text \<open>
  Two papers, a third with the title of the first in another case, and a world whose store
  holds the first.
\<close>

definition fraudPaper :: paper where
  "fraudPaper =
     \<lparr>ident = ''id-1'', title = JStr ''Fraud detection with LLMs'', abstract = JStr ''An abstract.'',
      authors = [''A. Author''], publicationDate = JStr ''2025-03-01'', source = JStr ''ArXiv'',
      url = ''https://arxiv.org/abs/1'', citationCount = 0, bankingDomain = ''Fraud Detection'',
      aiDomain = ''RAG Systems'', methodology = ''Case Study'', tags = [], isFavorite = False,
      collectedAt = ''2026-01-01T00:00:00.000Z''\<rparr>"

definition riskPaper :: paper where
  "riskPaper =
     fraudPaper\<lparr>ident := ''id-2'', title := JStr ''Risk control agents'',
                url := ''https://arxiv.org/abs/2''\<rparr>"

definition shoutedPaper :: paper where
  "shoutedPaper = fraudPaper\<lparr>ident := ''id-3'', title := JStr ''FRAUD detection with LLMs'', url := []\<rparr>"

definition storedWorld :: world where
  "storedWorld =
     world0\<lparr>clock := 90000000,
            storage := emptyStorage\<lparr>bankai_papers := Some [fraudPaper],
                                    bankai_last_batch_run := Some 10000000\<rparr>\<rparr>"

text \<open>
  A raw value is a member of an enumeration when it is one of its strings. A raw record
  has a title when its \<^verbatim>\<open>title\<close> is truthy; otherwise the title is missing.
\<close>

definition memberOf :: "string list \<Rightarrow> json option \<Rightarrow> bool" where
  "memberOf members v \<longleftrightarrow> (\<exists>s\<in>set members. v = Some (JStr s))"

definition hasTitle :: "json \<Rightarrow> bool" where
  "hasTitle p \<longleftrightarrow> truthy (getProp p ''title'')"

text \<open>
  Three raw records: one with an unknown AI domain and no methodology, one with a title of
  four characters, one without a title.
\<close>

definition rawRecords :: "json list" where
  "rawRecords =
     [JObj [(''title'', JStr ''Deep fraud models''), (''bankingDomain'', JStr ''Fraud Detection''),
            (''aiDomain'', JStr ''Quantum AI''), (''url'', JStr ''https://arxiv.org/abs/3'')],
      JObj [(''title'', JStr ''Abcd''), (''bankingDomain'', JStr ''Fraud Detection'')],
      JObj [(''abstract'', JStr ''A record without a title.'')]]"

definition sanitizedRecord :: paper where
  "sanitizedRecord =
     \<lparr>ident = ''u'', title = JStr ''Deep fraud models'', abstract = JStr ''No abstract available.'',
      authors = [''Unknown Author''], publicationDate = JStr ''2026-01-01'', source = JStr ''Web'',
      url = ''https://arxiv.org/abs/3'', citationCount = 0, bankingDomain = ''Fraud Detection'',
      aiDomain = ''Predictive Analytics'', methodology = ''Theoretical Framework'', tags = [],
      isFavorite = False, collectedAt = ''2026-01-01T00:00:00.000Z''\<rparr>"

text \<open>The two requests of the pipeline, and its two calls through the retry wrapper.\<close>

abbreviation searchRequest :: "string \<Rightarrow> string list \<Rightarrow> string option \<Rightarrow> request" where
  "searchRequest query sources afterDate \<equiv>
     SearchRequest query (sourceStr sources) (dateStr afterDate)"

abbreviation kbRequest :: "string \<Rightarrow> string option \<Rightarrow> request" where
  "kbRequest query afterDate \<equiv> KnowledgeBaseRequest query (strOr afterDate ''2023-01-01'')"

abbreviation searchCall ::
  "env \<Rightarrow> string \<Rightarrow> string list \<Rightarrow> string option \<Rightarrow> response operation" where
  "searchCall E query sources afterDate \<equiv>
     retryOperation (modelOperation E (searchRequest query sources afterDate)) 2 20000"

abbreviation kbCall :: "env \<Rightarrow> string \<Rightarrow> string option \<Rightarrow> response operation" where
  "kbCall E query afterDate \<equiv> retryOperation (modelOperation E (kbRequest query afterDate)) 1 5000"

text \<open>
  A provider whose first request fails with a network error and whose later requests are
  rate limited.
\<close>

definition searchDownEnv :: env where
  "searchDownEnv =
     exampleEnv\<lparr>generateContent :=
       (\<lambda>k req. if k = 0 then Inl (Error ''fetch failed'') else Inl tooManyRequests)\<rparr>"

text \<open>
  A provider whose first reply is a text without JSON and whose later requests are rate
  limited.
\<close>

definition parseDownEnv :: env where
  "parseDownEnv =
     exampleEnv\<lparr>generateContent :=
       (\<lambda>k req. if k = 0 then Inr \<lparr>text = Some ''no json here''\<rparr> else Inl tooManyRequests)\<rparr>"

text \<open>
  A world whose stored settings select the Groq provider without an API key, one whose
  settings have a key, and an environment in which the request to Groq fails.
\<close>

definition groqNoKeyWorld :: world where
  "groqNoKeyWorld =
     world0\<lparr>storage := emptyStorage\<lparr>bankai_llm_settings :=
       Some \<lparr>provider = Groq, groqApiKey = None, groqModel = None\<rparr>\<rparr>\<rparr>"

definition groqKeyWorld :: world where
  "groqKeyWorld =
     world0\<lparr>storage := emptyStorage\<lparr>bankai_llm_settings :=
       Some \<lparr>provider = Groq, groqApiKey = Some ''gsk-1'', groqModel = None\<rparr>\<rparr>\<rparr>"

definition groqDownEnv :: env where
  "groqDownEnv = exampleEnv\<lparr>groqFetch := (\<lambda>k req. Threw ''Failed to fetch'')\<rparr>"

text \<open>
  A provider whose first reply has no text and whose later requests are rate limited, and
  a provider whose reply parses to an object, not an array.
\<close>

definition emptyReplyEnv :: env where
  "emptyReplyEnv =
     exampleEnv\<lparr>generateContent :=
       (\<lambda>k req. if k = 0 then Inr \<lparr>text = None\<rparr> else Inl tooManyRequests)\<rparr>"

definition objectReplyEnv :: env where
  "objectReplyEnv =
     exampleEnv\<lparr>generateContent := (\<lambda>k req. Inr \<lparr>text = Some ''{}''\<rparr>),
                JSON_parse := (\<lambda>s. Inr (JObj []))\<rparr>"

section \<open>The retry wrapper: results\<close>

declare retryOperation.simps [simp del]

lemma retry_success:
  "operation w = (Inr v, w1) \<Longrightarrow> retryOperation operation n d w = (Inr v, w1)"
  by (subst retryOperation.simps) simp

lemma retry_propagate:
  "operation w = (Inl e, w1) \<Longrightarrow> \<not> (n > 0 \<and> isTransient e) \<Longrightarrow>
   retryOperation operation n d w = (Inl e, w1)"
  apply (subst retryOperation.simps)
  apply (simp only: prod.case sum.case)
  apply simp
  done

lemma retry_again:
  "operation w = (Inl e, w1) \<Longrightarrow> n > 0 \<Longrightarrow> isTransient e \<Longrightarrow>
   retryOperation operation n d w = retryOperation operation (n - 1) (d * 2) (delay d w1)"
  by (subst retryOperation.simps) simp

lemma signature429_transient: "signature429 e \<Longrightarrow> isTransient e"
  by (auto simp: signature429_def isTransient_def)

lemma modelOperation_waits: "waits (snd (modelOperation E req w)) = waits w"
  by (simp add: modelOperation_def callModel_def)

lemma modelOperation_requests:
  "ai E \<Longrightarrow> requests (snd (modelOperation E req w)) = requests w @ [req]"
  by (simp add: modelOperation_def callModel_def)

text \<open>
  The trace of the wrapper around a call to the model: between one and \<open>retries + 1\<close>
  requests, all the same, with the waits doubling from the initial delay; storage and the
  identifier counter are not touched.
\<close>

lemma retry_model_trace:
  assumes ai: "ai E"
  shows "retryOperation (modelOperation E req) n d w = (res, w') \<Longrightarrow>
     \<exists>k. 1 \<le> k \<and> int k \<le> max n 0 + 1
        \<and> requests w' = requests w @ replicate k req
        \<and> waits w' = waits w @ map (\<lambda>i. d * 2 ^ i) [0..<k - 1]
        \<and> storage w' = storage w \<and> nextId w' = nextId w"
proof (induction "modelOperation E req" n d w arbitrary: res w' rule: retryOperation.induct)
  case (1 retries initialDelay w)
  obtain x w1 where op: "modelOperation E req w = (x, w1)" by (cases "modelOperation E req w")
  have w1: "w1 = w\<lparr>requests := requests w @ [req]\<rparr>"
    using op ai by (auto simp: modelOperation_def callModel_def)
  show ?case
  proof (cases x)
    case (Inr v)
    then have "retryOperation (modelOperation E req) retries initialDelay w = (Inr v, w1)"
      using op by (simp add: retry_success)
    with "1.prems" have "w' = w1" by simp
    then show ?thesis using w1 by (intro exI [of _ 1]) simp
  next
    case (Inl e)
    show ?thesis
    proof (cases "retries > 0 \<and> isTransient e")
      case False
      then have "retryOperation (modelOperation E req) retries initialDelay w = (Inl e, w1)"
        using op Inl retry_propagate by blast
      with "1.prems" have "w' = w1" by simp
      then show ?thesis using w1 by (intro exI [of _ 1]) simp
    next
      case True
      then have eq: "retryOperation (modelOperation E req) retries initialDelay w
          = retryOperation (modelOperation E req) (retries - 1) (initialDelay * 2) (delay initialDelay w1)"
        using op Inl retry_again by blast
      from "1.hyps" [OF op [symmetric, unfolded Inl] _ True] "1.prems" eq
      obtain k where k: "1 \<le> k" "int k \<le> max (retries - 1) 0 + 1"
        "requests w' = requests (delay initialDelay w1) @ replicate k req"
        "waits w' = waits (delay initialDelay w1) @ map (\<lambda>i. initialDelay * 2 * 2 ^ i) [0..<k - 1]"
        "storage w' = storage (delay initialDelay w1)" "nextId w' = nextId (delay initialDelay w1)"
        by auto
      have m: "map (\<lambda>i. initialDelay * 2 ^ i) [0..<Suc k - 1]
          = initialDelay # map (\<lambda>i. initialDelay * 2 * 2 ^ i) [0..<k - 1]"
        using k(1) by (cases k) (simp_all add: upt_rec [of 0] map_Suc_upt [symmetric] del: upt_Suc)
      show ?thesis
        using k True m w1
        by (intro exI [of _ "Suc k"]) (simp add: delay_def replicate_app_Cons_same)
    qed
  qed
qed

text \<open>
  C2. An operation that fails twice with a 429 signature and then succeeds: with a retry
  budget of 2 and an initial backoff \<open>d\<close>, the wrapper returns the success value after the
  third attempt, having waited \<open>d\<close> before the second attempt and \<open>2 * d\<close> before the
  third. When the operation itself never waits, the run adds exactly these two waits,
  \<open>d + 2 * d\<close> in total; when it logs one request per attempt, the run adds exactly
  three requests.
\<close>

theorem retryOperation_two_429_then_success:
  assumes first: "operation w0 = (Inl e1, w1)" and sig1: "signature429 e1"
    and second: "operation (delay d w1) = (Inl e2, w2)" and sig2: "signature429 e2"
    and third: "operation (delay (2 * d) w2) = (Inr v, w3)"
  shows "retryOperation operation 2 d w0 = (Inr v, w3)
       \<and> ((\<forall>w. waits (snd (operation w)) = waits w) \<longrightarrow>
             waits w3 = waits w0 @ [d, 2 * d]
             \<and> sum_list (drop (length (waits w0)) (waits w3)) = d + 2 * d)
       \<and> ((\<forall>w. requests (snd (operation w)) = requests w @ [r]) \<longrightarrow>
             requests w3 = requests w0 @ [r, r, r])"
proof -
  have "retryOperation operation 2 d w0 = retryOperation operation 1 (d * 2) (delay d w1)"
    using retry_again [of operation w0 e1 w1 2 d] first signature429_transient [OF sig1]
    by simp
  also have "\<dots> = retryOperation operation 0 (d * 2 * 2) (delay (d * 2) w2)"
    using retry_again [of operation "delay d w1" e2 w2 1 "d * 2"] second
      signature429_transient [OF sig2] by simp
  also have "\<dots> = (Inr v, w3)"
    using third by (simp add: retry_success mult.commute)
  finally have run: "retryOperation operation 2 d w0 = (Inr v, w3)" .
  have waited: "waits w3 = waits w0 @ [d, 2 * d]
      \<and> sum_list (drop (length (waits w0)) (waits w3)) = d + 2 * d"
    if no_wait: "\<forall>w. waits (snd (operation w)) = waits w"
  proof -
    have q1: "waits w1 = waits w0"
      using no_wait [rule_format, of w0] first by simp
    have q2: "waits w2 = waits w1 @ [d]"
      using no_wait [rule_format, of "delay d w1"] second by (simp add: delay_def)
    have q3: "waits w3 = waits w2 @ [2 * d]"
      using no_wait [rule_format, of "delay (2 * d) w2"] third by (simp add: delay_def)
    show ?thesis using q1 q2 q3 by simp
  qed
  have sent: "requests w3 = requests w0 @ [r, r, r]"
    if one_request: "\<forall>w. requests (snd (operation w)) = requests w @ [r]"
  proof -
    have r1: "requests w1 = requests w0 @ [r]"
      using one_request [rule_format, of w0] first by simp
    have r2: "requests w2 = requests w1 @ [r]"
      using one_request [rule_format, of "delay d w1"] second by (simp add: delay_def)
    have r3: "requests w3 = requests w2 @ [r]"
      using one_request [rule_format, of "delay (2 * d) w2"] third by (simp add: delay_def)
    show ?thesis using r1 r2 r3 by simp
  qed
  show ?thesis using run waited sent by blast
qed

theorem retryOperation_two_429_then_success_witness:
  "retryOperation (modelOperation twiceLimitedEnv (OptimizeRequest ''q'')) 2 1000 world0
     = (Inr \<lparr>text = Some ''[]''\<rparr>,
        world0\<lparr>clock := 3000,
               requests := [OptimizeRequest ''q'', OptimizeRequest ''q'', OptimizeRequest ''q''],
               waits := [1000, 2000]\<rparr>)
   \<and> sum_list [1000, 2000 :: nat] = 1000 + 2 * 1000"
proof -
  let ?r = "OptimizeRequest ''q''"
  let ?op = "modelOperation twiceLimitedEnv ?r"
  let ?w1 = "world0\<lparr>requests := [?r]\<rparr>"
  let ?w2 = "world0\<lparr>clock := 1000, requests := [?r, ?r], waits := [1000]\<rparr>"
  let ?w3 = "world0\<lparr>clock := 3000, requests := [?r, ?r, ?r], waits := [1000, 2000]\<rparr>"
  have ai: "ai twiceLimitedEnv" by (simp add: twiceLimitedEnv_def exampleEnv_def)
  have first: "?op world0 = (Inl tooManyRequests, ?w1)"
    by (simp add: modelOperation_def callModel_def twiceLimitedEnv_def exampleEnv_def world0_def)
  have second: "?op (delay 1000 ?w1) = (Inl tooManyRequests, ?w2)"
    by (simp add: modelOperation_def callModel_def twiceLimitedEnv_def exampleEnv_def world0_def delay_def)
  have third: "?op (delay (2 * 1000) ?w2) = (Inr \<lparr>text = Some ''[]''\<rparr>, ?w3)"
    by (simp add: modelOperation_def callModel_def twiceLimitedEnv_def exampleEnv_def world0_def delay_def)
  have sig: "signature429 tooManyRequests"
    by (simp add: signature429_def tooManyRequests_def message_def)
  show ?thesis
    using retryOperation_two_429_then_success [OF first sig second sig third, of ?r]
      modelOperation_waits modelOperation_requests [OF ai]
    by (simp add: world0_def)
qed

text \<open>
  C3. An error whose status is 503 and whose message does not contain \<^verbatim>\<open>503\<close> is not
  classified as transient: the wrapper, with a budget of 2, makes one attempt, does not wait
  and throws the error, although the second attempt would have succeeded.
\<close>

theorem retryOperation_status_503_not_retried:
  "\<not> isTransient serviceUnavailable
   \<and> retryOperation (modelOperation overloadedOnceEnv (SearchRequest ''q'' ''s'' ''d'')) 2 20000 world0
       = (Inl serviceUnavailable, world0\<lparr>requests := [SearchRequest ''q'' ''s'' ''d'']\<rparr>)
   \<and> fst (modelOperation overloadedOnceEnv (SearchRequest ''q'' ''s'' ''d'')
            (world0\<lparr>requests := [SearchRequest ''q'' ''s'' ''d'']\<rparr>))
       = Inr \<lparr>text = Some ''[]''\<rparr>"
proof -
  have nt: "\<not> isTransient serviceUnavailable"
    by (simp add: isTransient_def serviceUnavailable_def message_def)
  have op: "modelOperation overloadedOnceEnv (SearchRequest ''q'' ''s'' ''d'') world0
      = (Inl serviceUnavailable, world0\<lparr>requests := [SearchRequest ''q'' ''s'' ''d'']\<rparr>)"
    by (simp add: modelOperation_def callModel_def overloadedOnceEnv_def exampleEnv_def world0_def)
  have nxt: "fst (modelOperation overloadedOnceEnv (SearchRequest ''q'' ''s'' ''d'')
            (world0\<lparr>requests := [SearchRequest ''q'' ''s'' ''d'']\<rparr>))
       = Inr \<lparr>text = Some ''[]''\<rparr>"
    by (simp add: modelOperation_def callModel_def overloadedOnceEnv_def exampleEnv_def world0_def)
  show ?thesis
    using nt op nxt
      retry_propagate [of "modelOperation overloadedOnceEnv (SearchRequest ''q'' ''s'' ''d'')"
        world0 serviceUnavailable "world0\<lparr>requests := [SearchRequest ''q'' ''s'' ''d'']\<rparr>" 2 20000]
    by simp
qed

section \<open>The collection pipeline: the quota branch\<close>

lemma alwaysLimited_run:
  "retryOperation (modelOperation alwaysLimitedEnv r) 2 20000 world0
     = (Inl tooManyRequests, world0\<lparr>clock := 60000, requests := [r, r, r], waits := [20000, 40000]\<rparr>)"
  by (simp add: retryOperation.simps modelOperation_def callModel_def alwaysLimitedEnv_def
      exampleEnv_def world0_def delay_def isTransient_def tooManyRequests_def message_def)

lemma searchAndExtract_fail:
  "retryOperation (modelOperation E (SearchRequest query (sourceStr sources) (dateStr afterDate)))
      2 20000 w = (Inl e, w1) \<Longrightarrow> searchAndExtract E query sources afterDate w = (Inl e, w1)"
  by (simp add: searchAndExtract_def)

text \<open>
  C1. When the client is configured and the search call, retries included, ends with an
  error whose message contains \<^verbatim>\<open>429\<close> or whose code is 429, the pipeline throws the
  Quota-Exceeded error and stops in the world the search call left: the only requests it
  has sent are the one to three search requests, none to the knowledge base.
\<close>

theorem collectPapersFromWeb_quota_no_fallback:
  assumes ai: "ai E"
    and primary: "retryOperation
        (modelOperation E (SearchRequest query (sourceStr sources) (dateStr afterDate)))
        2 20000 w = (Inl e, w1)"
    and quota: "includesStr (message e) ''429'' \<or> code e = Some (JNum 429)"
  shows "collectPapersFromWeb E query sources afterDate w = (Inl quotaExceeded, w1)
       \<and> (\<exists>k. 1 \<le> k \<and> k \<le> 3
            \<and> requests w1
                = requests w @ replicate k (SearchRequest query (sourceStr sources) (dateStr afterDate)))"
proof -
  have "isQuota e" using quota by (simp add: isQuota_def)
  then have res: "collectPapersFromWeb E query sources afterDate w = (Inl quotaExceeded, w1)"
    using ai searchAndExtract_fail [OF primary] by (simp add: collectPapersFromWeb_def)
  from retry_model_trace [OF ai primary] obtain k where
    "1 \<le> k" "int k \<le> max 2 0 + 1"
    "requests w1 = requests w @ replicate k (SearchRequest query (sourceStr sources) (dateStr afterDate))"
    by blast
  then show ?thesis using res by (intro conjI exI [of _ k]) simp_all
qed

theorem collectPapersFromWeb_quota_no_fallback_witness:
  "collectPapersFromWeb alwaysLimitedEnv ''fraud'' [] None world0
     = (Inl quotaExceeded,
        world0\<lparr>clock := 60000,
               requests := replicate 3 (SearchRequest ''fraud'' (sourceStr []) (dateStr None)),
               waits := [20000, 40000]\<rparr>)"
proof -
  have ai: "ai alwaysLimitedEnv" by (simp add: alwaysLimitedEnv_def exampleEnv_def)
  have q: "includesStr (message tooManyRequests) ''429'' \<or> code tooManyRequests = Some (JNum 429)"
    by (simp add: tooManyRequests_def message_def)
  show ?thesis
    using collectPapersFromWeb_quota_no_fallback [OF ai alwaysLimited_run q, of "''fraud''" "[]" None]
    by (simp add: numeral_3_eq_3)
qed

section \<open>The daily batch job: the 24-hour gate\<close>

text \<open>
  C9. When the stored last-run timestamp is non-zero and less than 24 hours before the
  clock, the batch job returns 0 and leaves the world as it found it: no request is sent,
  no delay awaited, and neither the stored papers nor the stored timestamp change.
\<close>

theorem runDailyBatchJob_within_a_day:
  assumes "bankai_last_batch_run (storage w) = Some t"
    and "t \<noteq> 0"
    and "clock w - t < 24 * 60 * 60 * 1000"
  shows "runDailyBatchJob E w = (0, w)"
  using assms by (simp add: runDailyBatchJob_def getLastBatchRun_def ONE_DAY_MS_def)

theorem runDailyBatchJob_within_a_day_witness:
  "runDailyBatchJob exampleEnv storedWorld = (0, storedWorld)"
proof -
  have a: "bankai_last_batch_run (storage storedWorld) = Some 10000000"
    by (simp add: storedWorld_def world0_def emptyStorage_def)
  have b: "(10000000 :: int) \<noteq> 0" by simp
  have c: "clock storedWorld - 10000000 < 24 * 60 * 60 * 1000"
    by (simp add: storedWorld_def world0_def)
  show ?thesis using runDailyBatchJob_within_a_day [OF a b c] .
qed

section \<open>The storage service: results\<close>

lemma orElse_idem: "orElse (Some (orElse (Some v) d)) d = orElse (Some v) d"
  by (cases v) (auto simp: orElse_def)

lemma readPaper_idem: "readPaper (readPaper p) = readPaper p"
  by (simp add: readPaper_def orElse_idem)

lemma getPapers_setPapers: "getPapers (setPapers ps w) = map readPaper ps"
  by (simp add: getPapers_def setPapers_def)

lemma getPapers_read: "map readPaper (getPapers w) = getPapers w"
  by (cases "bankai_papers (storage w)") (simp_all add: getPapers_def readPaper_idem)

lemma toggleOne_twice: "toggleOne i (toggleOne i p) = p"
  by (simp add: toggleOne_def)

lemma toggleOne_comp: "toggleOne i \<circ> toggleOne i = id"
  by (rule ext) (simp add: toggleOne_twice)

lemma readPaper_toggleOne: "readPaper (toggleOne i p) = toggleOne i (readPaper p)"
  by (simp add: toggleOne_def readPaper_def)

lemma toggleFavorite_eq:
  "toggleFavorite i w =
     (map (toggleOne i) (getPapers w), setPapers (map (toggleOne i) (getPapers w)) w)"
  by (simp add: toggleFavorite_def Let_def)

lemma toggle_readback:
  "getPapers (setPapers (map (toggleOne i) (getPapers v)) v) = map (toggleOne i) (getPapers v)"
proof -
  have "map readPaper (map (toggleOne i) (getPapers v))
      = map (toggleOne i) (map readPaper (getPapers v))"
    by (simp add: readPaper_toggleOne)
  then show ?thesis by (simp only: getPapers_setPapers getPapers_read)
qed

text \<open>
  C10. \<open>toggleFavorite i\<close> returns the list that \<open>getPapers\<close> reads, in the same order
  and of the same length, where every record whose identifier is \<open>i\<close> has its favorite
  flag negated and nothing else changed, and every other record is unchanged; the store
  then holds the returned list, and a second \<open>toggleFavorite i\<close> returns and stores the
  original list.
\<close>

theorem toggleFavorite_frame_and_involution:
  "length (fst (toggleFavorite i w)) = length (getPapers w)
   \<and> (\<forall>k < length (getPapers w).
        fst (toggleFavorite i w) ! k =
          (if ident (getPapers w ! k) = i
           then (getPapers w ! k)\<lparr>isFavorite := \<not> isFavorite (getPapers w ! k)\<rparr>
           else getPapers w ! k))
   \<and> getPapers (snd (toggleFavorite i w)) = fst (toggleFavorite i w)
   \<and> fst (toggleFavorite i (snd (toggleFavorite i w))) = getPapers w
   \<and> getPapers (snd (toggleFavorite i (snd (toggleFavorite i w)))) = getPapers w"
proof -
  have a: "length (fst (toggleFavorite i w)) = length (getPapers w)"
    by (simp add: toggleFavorite_eq)
  have b: "\<forall>k < length (getPapers w).
        fst (toggleFavorite i w) ! k =
          (if ident (getPapers w ! k) = i
           then (getPapers w ! k)\<lparr>isFavorite := \<not> isFavorite (getPapers w ! k)\<rparr>
           else getPapers w ! k)"
    by (simp add: toggleFavorite_eq) (simp add: toggleOne_def)
  have c: "getPapers (snd (toggleFavorite i w)) = fst (toggleFavorite i w)"
    by (simp add: toggleFavorite_eq toggle_readback)
  have twice: "map (toggleOne i) (fst (toggleFavorite i w)) = getPapers w"
    by (simp add: toggleFavorite_eq toggleOne_comp)
  have d: "fst (toggleFavorite i (snd (toggleFavorite i w))) = getPapers w"
    using twice c by (simp add: toggleFavorite_eq [of i "snd (toggleFavorite i w)"])
  have "getPapers (snd (toggleFavorite i (snd (toggleFavorite i w))))
      = map (toggleOne i) (getPapers (snd (toggleFavorite i w)))"
    by (simp only: toggleFavorite_eq [of i "snd (toggleFavorite i w)"] snd_conv toggle_readback)
  then have e: "getPapers (snd (toggleFavorite i (snd (toggleFavorite i w)))) = getPapers w"
    using twice c by simp
  show ?thesis using a b c d e by blast
qed

lemma getPapers_storedWorld: "getPapers storedWorld = [fraudPaper]"
  by (simp add: getPapers_def storedWorld_def world0_def emptyStorage_def readPaper_def
      fraudPaper_def orElse_def)

theorem toggleFavorite_frame_and_involution_witness:
  "(0::nat) < length (getPapers storedWorld)
   \<and> fst (toggleFavorite ''id-1'' storedWorld) ! 0 = fraudPaper\<lparr>isFavorite := True\<rparr>
   \<and> fst (toggleFavorite ''id-1'' (snd (toggleFavorite ''id-1'' storedWorld))) = [fraudPaper]"
proof -
  have i: "ident fraudPaper = ''id-1''" and f: "\<not> isFavorite fraudPaper"
    by (simp_all add: fraudPaper_def)
  show ?thesis
    using toggleFavorite_frame_and_involution [of "''id-1''" storedWorld] i f
    by (simp add: getPapers_storedWorld)
qed

lemma isDuplicate_strings:
  assumes "\<forall>q\<in>set ps. isString (title q)" and "isString (title paper)"
  shows "isDuplicate E paper ps = Inr (\<exists>q\<in>set ps. sameTitle E q paper \<or> sameUrl q paper)"
  using assms
proof (induction ps)
  case Nil
  then show ?case by simp
next
  case (Cons p ps)
  from Cons.prems obtain a b where a: "title p = JStr a" and b: "title paper = JStr b"
    by (auto simp: isString_def split: json.splits)
  have ih: "isDuplicate E paper ps = Inr (\<exists>q\<in>set ps. sameTitle E q paper \<or> sameUrl q paper)"
    using Cons by simp
  have here: "sameTitle E p paper \<longleftrightarrow> toLowerCase E a = toLowerCase E b"
    using a b by (simp add: sameTitle_def)
  show ?case
  proof (cases "sameTitle E p paper \<or> sameUrl p paper")
    case True
    then have "isDuplicate E paper (p # ps) = Inr True"
      using a b here by (auto simp: sameUrl_def)
    then show ?thesis using True by simp
  next
    case False
    then have "isDuplicate E paper (p # ps) = isDuplicate E paper ps"
      using a b here by (auto simp: sameUrl_def)
    then show ?thesis using False ih by simp
  qed
qed

lemma isString_readPaper:
  "isString (title p) \<Longrightarrow> isString (title (readPaper p))"
  by (cases "title p") (simp_all add: readPaper_def orElse_def isString_def)

lemma sameTitle_readPaper:
  assumes "isString (title p)" and "title p \<noteq> JStr []"
  shows "sameTitle E (readPaper p) q = sameTitle E p q"
  using assms
  by (cases "title p") (simp_all add: readPaper_def orElse_def sameTitle_def isString_def)

lemma url_readPaper: "url (readPaper p) = url p"
  by (simp add: readPaper_def)

lemma sameTitle_sym: "sameTitle E p q = sameTitle E q p"
  by (auto simp: sameTitle_def split: json.splits)

lemma sameTitle_refl: "isString (title p) \<Longrightarrow> sameTitle E p p"
  by (auto simp: sameTitle_def isString_def split: json.splits)

text \<open>
  C4. For a store and a paper whose titles are strings: when the store, as \<open>getPapers\<close>
  reads it, has a record with the same title (case-insensitively) or the same non-empty
  URL, \<open>savePaper\<close> returns false and changes nothing; otherwise it returns true and
  writes the paper in front of the list read, in which it is then the only record with that
  title. When the title is moreover not empty, a second save of any paper with the same
  title reports a duplicate, changes nothing, and the store read back still has exactly one
  record with that title.
\<close>

theorem savePaper_unique:
  assumes typed: "\<forall>q\<in>set (getPapers w). isString (title q)" and tp: "isString (title p)"
  shows "((\<exists>q\<in>set (getPapers w). sameTitle E q p \<or> sameUrl q p) \<longrightarrow>
            savePaper E p w = (Inr False, w))
       \<and> (\<not> (\<exists>q\<in>set (getPapers w). sameTitle E q p \<or> sameUrl q p) \<longrightarrow>
            savePaper E p w = (Inr True, setPapers (p # getPapers w) w)
            \<and> bankai_papers (storage (snd (savePaper E p w))) = Some (p # getPapers w)
            \<and> length (filter (sameTitle E p) (p # getPapers w)) = 1
            \<and> (title p \<noteq> JStr [] \<longrightarrow>
                 length (filter (sameTitle E p) (getPapers (snd (savePaper E p w)))) = 1
                 \<and> (\<forall>p2. sameTitle E p p2 \<longrightarrow>
                       savePaper E p2 (snd (savePaper E p w))
                         = (Inr False, snd (savePaper E p w)))))"
proof -
  let ?dup = "\<exists>q\<in>set (getPapers w). sameTitle E q p \<or> sameUrl q p"
  have d: "isDuplicate E p (getPapers w) = Inr ?dup"
    using isDuplicate_strings [OF typed tp] .
  have yes: "?dup \<longrightarrow> savePaper E p w = (Inr False, w)"
    using d by (simp add: savePaper_def Let_def)
  have no: "\<not> ?dup \<Longrightarrow> savePaper E p w = (Inr True, setPapers (p # getPapers w) w)"
    using d by (simp add: savePaper_def Let_def)
  have stored: "\<not> ?dup \<Longrightarrow> bankai_papers (storage (snd (savePaper E p w))) = Some (p # getPapers w)"
    using no by (simp add: setPapers_def)
  have none: "filter (sameTitle E p) (getPapers w) = []" if nd: "\<not> ?dup"
  proof -
    have "\<forall>q\<in>set (getPapers w). \<not> sameTitle E p q"
      using nd sameTitle_sym [of E p] by blast
    then show ?thesis by (simp add: filter_empty_conv)
  qed
  have one: "\<not> ?dup \<Longrightarrow> length (filter (sameTitle E p) (p # getPapers w)) = 1"
    using none sameTitle_refl [OF tp, of E] by simp
  have view: "\<not> ?dup \<Longrightarrow> getPapers (snd (savePaper E p w)) = readPaper p # getPapers w"
    using no by (simp add: getPapers_setPapers getPapers_read)
  have one': "length (filter (sameTitle E p) (getPapers (snd (savePaper E p w)))) = 1"
    if nd: "\<not> ?dup" and ne: "title p \<noteq> JStr []"
  proof -
    have "sameTitle E p (readPaper p)"
      using sameTitle_readPaper [OF tp ne, of E p] sameTitle_refl [OF tp, of E]
        sameTitle_sym [of E p "readPaper p"] by simp
    then show ?thesis using view [OF nd] none [OF nd] by simp
  qed
  have again: "savePaper E p2 (snd (savePaper E p w)) = (Inr False, snd (savePaper E p w))"
    if nd: "\<not> ?dup" and ne: "title p \<noteq> JStr []" and st: "sameTitle E p p2" for p2
  proof -
    let ?w1 = "snd (savePaper E p w)"
    have t2: "isString (title p2)"
      using st by (auto simp: sameTitle_def isString_def split: json.splits)
    have typed1: "\<forall>q\<in>set (getPapers ?w1). isString (title q)"
      using view [OF nd] typed tp by (simp add: isString_readPaper)
    have "sameTitle E (readPaper p) p2"
      using st sameTitle_readPaper [OF tp ne] by simp
    then have "\<exists>q\<in>set (getPapers ?w1). sameTitle E q p2 \<or> sameUrl q p2"
      using view [OF nd] by auto
    then have "isDuplicate E p2 (getPapers ?w1) = Inr True"
      using isDuplicate_strings [OF typed1 t2, of E] by simp
    then show ?thesis by (simp add: savePaper_def Let_def)
  qed
  have fresh: "\<not> ?dup \<longrightarrow>
            savePaper E p w = (Inr True, setPapers (p # getPapers w) w)
            \<and> bankai_papers (storage (snd (savePaper E p w))) = Some (p # getPapers w)
            \<and> length (filter (sameTitle E p) (p # getPapers w)) = 1
            \<and> (title p \<noteq> JStr [] \<longrightarrow>
                 length (filter (sameTitle E p) (getPapers (snd (savePaper E p w)))) = 1
                 \<and> (\<forall>p2. sameTitle E p p2 \<longrightarrow>
                       savePaper E p2 (snd (savePaper E p w))
                         = (Inr False, snd (savePaper E p w))))"
  proof (intro impI conjI allI)
    assume nd: "\<not> ?dup"
    show "savePaper E p w = (Inr True, setPapers (p # getPapers w) w)" by (rule no [OF nd])
    show "bankai_papers (storage (snd (savePaper E p w))) = Some (p # getPapers w)"
      by (rule stored [OF nd])
    show "length (filter (sameTitle E p) (p # getPapers w)) = 1" by (rule one [OF nd])
    assume ne: "title p \<noteq> JStr []"
    show "length (filter (sameTitle E p) (getPapers (snd (savePaper E p w)))) = 1"
      by (rule one' [OF nd ne])
    fix p2 assume "sameTitle E p p2"
    then show "savePaper E p2 (snd (savePaper E p w)) = (Inr False, snd (savePaper E p w))"
      by (rule again [OF nd ne])
  qed
  show ?thesis by (rule conjI [OF yes fresh])
qed

lemma toLowerCase_exampleEnv: "toLowerCase exampleEnv = asciiLower"
  by (simp add: exampleEnv_def)

theorem savePaper_unique_witness:
  "savePaper exampleEnv shoutedPaper storedWorld = (Inr False, storedWorld)
   \<and> savePaper exampleEnv riskPaper storedWorld
       = (Inr True, setPapers [riskPaper, fraudPaper] storedWorld)
   \<and> savePaper exampleEnv riskPaper (snd (savePaper exampleEnv riskPaper storedWorld))
       = (Inr False, snd (savePaper exampleEnv riskPaper storedWorld))"
proof -
  have typed: "\<forall>q\<in>set (getPapers storedWorld). isString (title q)"
    by (simp add: getPapers_storedWorld) (simp add: fraudPaper_def isString_def)
  have t1: "isString (title shoutedPaper)"
    by (simp add: shoutedPaper_def isString_def)
  have t2: "isString (title riskPaper)"
    by (simp add: riskPaper_def isString_def)
  have dup: "\<exists>q\<in>set (getPapers storedWorld).
      sameTitle exampleEnv q shoutedPaper \<or> sameUrl q shoutedPaper"
    by (simp add: getPapers_storedWorld)
       (simp add: sameTitle_def fraudPaper_def shoutedPaper_def toLowerCase_exampleEnv
          asciiLower_def)
  have fresh: "\<not> (\<exists>q\<in>set (getPapers storedWorld).
      sameTitle exampleEnv q riskPaper \<or> sameUrl q riskPaper)"
    by (simp add: getPapers_storedWorld)
       (simp add: sameTitle_def sameUrl_def fraudPaper_def riskPaper_def toLowerCase_exampleEnv
          asciiLower_def)
  have ne: "title riskPaper \<noteq> JStr []"
    by (simp add: riskPaper_def)
  have same: "sameTitle exampleEnv riskPaper riskPaper"
    by (rule sameTitle_refl [OF t2])
  have a: "savePaper exampleEnv shoutedPaper storedWorld = (Inr False, storedWorld)"
    using savePaper_unique [OF typed t1, of exampleEnv] dup by (rule_tac conjunct1 [THEN mp])
  have b: "savePaper exampleEnv riskPaper storedWorld
       = (Inr True, setPapers [riskPaper, fraudPaper] storedWorld)
     \<and> savePaper exampleEnv riskPaper (snd (savePaper exampleEnv riskPaper storedWorld))
       = (Inr False, snd (savePaper exampleEnv riskPaper storedWorld))"
    using savePaper_unique [OF typed t2, of exampleEnv] fresh ne same
    unfolding getPapers_storedWorld by blast
  show ?thesis using a b by (rule conjI)
qed

section \<open>The sanitizer: results\<close>

lemma mapPapers_derived:
  "mapPapers E raw w = (Inr qs, w') \<Longrightarrow>
     list_all2 (\<lambda>p q. sanitizeRecord E (clock w) (ident q) p = Inr q) raw qs"
proof (induction raw arbitrary: w qs)
  case Nil
  then show ?case by simp
next
  case (Cons p ps)
  let ?w1 = "w\<lparr>nextId := Suc (nextId w)\<rparr>"
  from Cons.prems obtain q qs' where
    q: "sanitizeRecord E (clock w) (randomUUID E (nextId w)) p = Inr q"
    and rest: "mapPapers E ps ?w1 = (Inr qs', w')" and qs: "qs = q # qs'"
    by (auto simp: generateId_def split: if_splits sum.splits prod.splits)
  have "ident q = randomUUID E (nextId w)"
    using q by (auto simp: sanitizeRecord_def split: sum.splits)
  then have "sanitizeRecord E (clock w) (ident q) p = Inr q" using q by simp
  moreover have "list_all2 (\<lambda>p q. sanitizeRecord E (clock w) (ident q) p = Inr q) ps qs'"
    using Cons.IH [OF rest] by simp
  ultimately show ?case using qs by simp
qed

lemma sanitizePapers_derived:
  assumes "sanitizePapers E raw w = (Inr out, w')"
  shows "\<exists>qs. list_all2 (\<lambda>p q. sanitizeRecord E (clock w) (ident q) p = Inr q) raw qs
            \<and> out = filter (keepPaper E (addHours24 E (clock w))) qs"
  using assms mapPapers_derived [of E raw w]
  by (auto simp: sanitizePapers_def Let_def split: prod.splits sum.splits)

lemma sanitizeRecord_title:
  "sanitizeRecord E now i p = Inr q \<Longrightarrow>
     title q = orElse (getProp p ''title'') (JStr ''Untitled Research'')"
  by (auto simp: sanitizeRecord_def split: sum.splits)

lemma sanitizeRecord_enums:
  "sanitizeRecord E now i p = Inr q \<Longrightarrow>
     bankingDomain q = validEnum BankingDomain_values GENERAL_BANKING (getProp p ''bankingDomain'')
     \<and> aiDomain q = validEnum AIDomain_values PREDICTIVE_ANALYTICS (getProp p ''aiDomain'')
     \<and> methodology q = validEnum Methodology_values THEORETICAL (getProp p ''methodology'')"
  by (auto simp: sanitizeRecord_def split: sum.splits)

lemma orElse_missing: "\<not> truthy v \<Longrightarrow> orElse v d = d"
  by (cases v) (simp_all add: orElse_def)

lemma orElse_present: "truthy v \<Longrightarrow> v = Some (orElse v d)"
  by (cases v) (simp_all add: orElse_def)

lemma keepPaper_title:
  "keepPaper E h q \<Longrightarrow>
     title q \<noteq> JStr ''Untitled Research'' \<and> (\<forall>s. title q = JStr s \<longrightarrow> 5 \<le> length s)"
  by (auto simp: keepPaper_def titleTooShort_def split: if_splits)

lemma kept_has_title:
  assumes "sanitizeRecord E now i p = Inr q" and "keepPaper E h q"
  shows "hasTitle p \<and> getProp p ''title'' = Some (title q)"
proof -
  have t: "title q = orElse (getProp p ''title'') (JStr ''Untitled Research'')"
    using assms(1) by (rule sanitizeRecord_title)
  have "title q \<noteq> JStr ''Untitled Research''"
    using keepPaper_title [OF assms(2)] by simp
  then have "truthy (getProp p ''title'')"
    using t orElse_missing by metis
  then show ?thesis using t orElse_present by (simp add: hasTitle_def)
qed

lemma kept_count:
  "list_all2 (\<lambda>p q. sanitizeRecord E now (ident q) p = Inr q) raw qs \<Longrightarrow>
     length (filter (keepPaper E h) qs) \<le> length (filter hasTitle raw)"
proof (induction rule: list_all2_induct)
  case Nil
  then show ?case by simp
next
  case (Cons p ps q qs)
  then show ?case using kept_has_title [of E now "ident q" p q h] by auto
qed

lemma list_all2_source:
  "list_all2 R xs ys \<Longrightarrow> y \<in> set ys \<Longrightarrow> \<exists>x\<in>set xs. R x y"
  by (induction rule: list_all2_induct) auto

text \<open>
  C5. No record of the sanitizer's output has the placeholder title or a string title of
  fewer than 5 characters. Every record of the output is made from a raw record that has a
  title, which it keeps; so a raw record whose title is missing (and was replaced by the
  placeholder) gives no record of the output, and the output has at most as many records as
  there are raw records with a title.
\<close>

theorem sanitizePapers_titles:
  assumes "sanitizePapers E raw w = (Inr out, w')"
  shows "(\<forall>q\<in>set out.
            title q \<noteq> JStr ''Untitled Research''
            \<and> (\<forall>s. title q = JStr s \<longrightarrow> 5 \<le> length s)
            \<and> (\<exists>p\<in>set raw. sanitizeRecord E (clock w) (ident q) p = Inr q
                  \<and> hasTitle p \<and> getProp p ''title'' = Some (title q)))
       \<and> length out \<le> length (filter hasTitle raw)"
proof -
  from sanitizePapers_derived [OF assms] obtain qs where
    rel: "list_all2 (\<lambda>p q. sanitizeRecord E (clock w) (ident q) p = Inr q) raw qs"
    and out: "out = filter (keepPaper E (addHours24 E (clock w))) qs"
    by blast
  have "title q \<noteq> JStr ''Untitled Research''
      \<and> (\<forall>s. title q = JStr s \<longrightarrow> 5 \<le> length s)
      \<and> (\<exists>p\<in>set raw. sanitizeRecord E (clock w) (ident q) p = Inr q
            \<and> hasTitle p \<and> getProp p ''title'' = Some (title q))"
    if "q \<in> set out" for q
  proof -
    from that out have q: "q \<in> set qs" and k: "keepPaper E (addHours24 E (clock w)) q"
      by simp_all
    from list_all2_source [OF rel q] obtain p where
      p: "p \<in> set raw" "sanitizeRecord E (clock w) (ident q) p = Inr q" by blast
    show ?thesis
      using keepPaper_title [OF k] p kept_has_title [OF p(2) k] by blast
  qed
  moreover have "length out \<le> length (filter hasTitle raw)"
    unfolding out by (rule kept_count [OF rel])
  ultimately show ?thesis by blast
qed

lemma sanitizePapers_rawRecords:
  "sanitizePapers exampleEnv rawRecords world0 = (Inr [sanitizedRecord], world0\<lparr>nextId := 3\<rparr>)"
  by (simp add: sanitizePapers_def rawRecords_def sanitizeRecord_def safeUrl_def safeAuthors_def
      validEnum_def orElse_def keepPaper_def titleTooShort_def isoDate_def toStr_def
      exampleEnv_def world0_def sanitizedRecord_def BankingDomain_values_def AIDomain_values_def
      Methodology_values_def GENERAL_BANKING_def PREDICTIVE_ANALYTICS_def THEORETICAL_def
      Error_def Let_def generateId_def numeral_3_eq_3)

theorem sanitizePapers_titles_witness:
  "sanitizePapers exampleEnv rawRecords world0 = (Inr [sanitizedRecord], world0\<lparr>nextId := 3\<rparr>)
   \<and> title sanitizedRecord \<noteq> JStr ''Untitled Research''
   \<and> title sanitizedRecord = JStr ''Deep fraud models''
   \<and> (5::nat) \<le> length ''Deep fraud models''
   \<and> length [sanitizedRecord] \<le> length (filter hasTitle rawRecords)"
proof -
  have t: "title sanitizedRecord = JStr ''Deep fraud models''"
    by (simp add: sanitizedRecord_def)
  show ?thesis
    using sanitizePapers_titles [OF sanitizePapers_rawRecords] t sanitizePapers_rawRecords
    by simp
qed

lemma validEnum_member:
  "memberOf members v \<Longrightarrow> v = Some (JStr (validEnum members d v))"
  by (auto simp: memberOf_def validEnum_def)

lemma validEnum_default:
  "\<not> memberOf members v \<Longrightarrow> validEnum members d v = d"
  by (auto simp: memberOf_def validEnum_def split: option.splits json.splits)

text \<open>
  C6. Every record of the sanitizer's output is made from a raw record of the input, and
  for each of the three enumerations: when the raw value is one of the enumeration's
  strings the record has that string, otherwise it has the enumeration's default,
  \<^verbatim>\<open>General Banking AI\<close>, \<^verbatim>\<open>Predictive Analytics\<close> or \<^verbatim>\<open>Theoretical Framework\<close>. The
  enumerations have six, six and five strings, and each default is one of them.
\<close>

theorem sanitizePapers_enums:
  assumes "sanitizePapers E raw w = (Inr out, w')"
  shows "(\<forall>q\<in>set out. \<exists>p\<in>set raw.
            sanitizeRecord E (clock w) (ident q) p = Inr q
            \<and> (if memberOf BankingDomain_values (getProp p ''bankingDomain'')
                then getProp p ''bankingDomain'' = Some (JStr (bankingDomain q))
                else bankingDomain q = ''General Banking AI'')
            \<and> (if memberOf AIDomain_values (getProp p ''aiDomain'')
                then getProp p ''aiDomain'' = Some (JStr (aiDomain q))
                else aiDomain q = ''Predictive Analytics'')
            \<and> (if memberOf Methodology_values (getProp p ''methodology'')
                then getProp p ''methodology'' = Some (JStr (methodology q))
                else methodology q = ''Theoretical Framework''))
       \<and> length BankingDomain_values = 6 \<and> ''General Banking AI'' \<in> set BankingDomain_values
       \<and> length AIDomain_values = 6 \<and> ''Predictive Analytics'' \<in> set AIDomain_values
       \<and> length Methodology_values = 5 \<and> ''Theoretical Framework'' \<in> set Methodology_values"
proof -
  from sanitizePapers_derived [OF assms] obtain qs where
    rel: "list_all2 (\<lambda>p q. sanitizeRecord E (clock w) (ident q) p = Inr q) raw qs"
    and out: "out = filter (keepPaper E (addHours24 E (clock w))) qs"
    by blast
  have each: "\<exists>p\<in>set raw.
            sanitizeRecord E (clock w) (ident q) p = Inr q
            \<and> (if memberOf BankingDomain_values (getProp p ''bankingDomain'')
                then getProp p ''bankingDomain'' = Some (JStr (bankingDomain q))
                else bankingDomain q = ''General Banking AI'')
            \<and> (if memberOf AIDomain_values (getProp p ''aiDomain'')
                then getProp p ''aiDomain'' = Some (JStr (aiDomain q))
                else aiDomain q = ''Predictive Analytics'')
            \<and> (if memberOf Methodology_values (getProp p ''methodology'')
                then getProp p ''methodology'' = Some (JStr (methodology q))
                else methodology q = ''Theoretical Framework'')"
    if "q \<in> set out" for q
  proof -
    from that out have q: "q \<in> set qs" by simp
    from list_all2_source [OF rel q] obtain p where
      p: "p \<in> set raw" "sanitizeRecord E (clock w) (ident q) p = Inr q" by blast
    note e = sanitizeRecord_enums [OF p(2)]
    have b: "if memberOf BankingDomain_values (getProp p ''bankingDomain'')
                then getProp p ''bankingDomain'' = Some (JStr (bankingDomain q))
                else bankingDomain q = ''General Banking AI''"
      using e validEnum_member [of BankingDomain_values "getProp p ''bankingDomain''" GENERAL_BANKING]
        validEnum_default [of BankingDomain_values "getProp p ''bankingDomain''" GENERAL_BANKING]
      by (simp add: GENERAL_BANKING_def)
    have a: "if memberOf AIDomain_values (getProp p ''aiDomain'')
                then getProp p ''aiDomain'' = Some (JStr (aiDomain q))
                else aiDomain q = ''Predictive Analytics''"
      using e validEnum_member [of AIDomain_values "getProp p ''aiDomain''" PREDICTIVE_ANALYTICS]
        validEnum_default [of AIDomain_values "getProp p ''aiDomain''" PREDICTIVE_ANALYTICS]
      by (simp add: PREDICTIVE_ANALYTICS_def)
    have m: "if memberOf Methodology_values (getProp p ''methodology'')
                then getProp p ''methodology'' = Some (JStr (methodology q))
                else methodology q = ''Theoretical Framework''"
      using e validEnum_member [of Methodology_values "getProp p ''methodology''" THEORETICAL]
        validEnum_default [of Methodology_values "getProp p ''methodology''" THEORETICAL]
      by (simp add: THEORETICAL_def)
    show ?thesis using p b a m by blast
  qed
  have sizes: "length BankingDomain_values = 6 \<and> ''General Banking AI'' \<in> set BankingDomain_values
       \<and> length AIDomain_values = 6 \<and> ''Predictive Analytics'' \<in> set AIDomain_values
       \<and> length Methodology_values = 5 \<and> ''Theoretical Framework'' \<in> set Methodology_values"
    by (simp add: BankingDomain_values_def AIDomain_values_def Methodology_values_def)
  show ?thesis using each sizes by blast
qed

theorem sanitizePapers_enums_witness:
  "sanitizePapers exampleEnv rawRecords world0 = (Inr [sanitizedRecord], world0\<lparr>nextId := 3\<rparr>)
   \<and> (\<exists>p\<in>set rawRecords.
         getProp p ''bankingDomain'' = Some (JStr ''Fraud Detection'')
         \<and> bankingDomain sanitizedRecord = ''Fraud Detection''
         \<and> getProp p ''aiDomain'' = Some (JStr ''Quantum AI'')
         \<and> aiDomain sanitizedRecord = ''Predictive Analytics''
         \<and> getProp p ''methodology'' = None
         \<and> methodology sanitizedRecord = ''Theoretical Framework'')"
proof -
  let ?p = "JObj [(''title'', JStr ''Deep fraud models''), (''bankingDomain'', JStr ''Fraud Detection''),
            (''aiDomain'', JStr ''Quantum AI''), (''url'', JStr ''https://arxiv.org/abs/3'')]"
  have p: "?p \<in> set rawRecords" by (simp add: rawRecords_def)
  have f: "getProp ?p ''bankingDomain'' = Some (JStr ''Fraud Detection'')"
    "getProp ?p ''aiDomain'' = Some (JStr ''Quantum AI'')"
    "getProp ?p ''methodology'' = None"
    by simp_all
  have s: "bankingDomain sanitizedRecord = ''Fraud Detection''"
    "aiDomain sanitizedRecord = ''Predictive Analytics''"
    "methodology sanitizedRecord = ''Theoretical Framework''"
    by (simp_all add: sanitizedRecord_def)
  show ?thesis
    using sanitizePapers_enums [OF sanitizePapers_rawRecords] sanitizePapers_rawRecords p f s
    by blast
qed

section \<open>The collection pipeline: the fallback branch\<close>

lemma kbCatch_throws: "kbCatch e w = (Inl k, w2) \<Longrightarrow> includesStr (message k) ''429''"
  by (auto simp: kbCatch_def split: if_splits)

lemma knowledgeBaseExtract_throws:
  assumes "knowledgeBaseExtract E response w1 = (Inl k, w2)"
  shows "includesStr (message k) ''429''"
proof (cases "strOr (text response) [] = []")
  case True
  then show ?thesis using assms by (simp add: knowledgeBaseExtract_def)
next
  case False
  show ?thesis
  proof (cases "JSON_parse E (trim E (strOr (text response) []))")
    case (Inl e)
    then show ?thesis
      using assms False kbCatch_throws by (simp add: knowledgeBaseExtract_def)
  next
    case (Inr v)
    show ?thesis
    proof (cases v)
      case (JArr rawData)
      obtain r w3 where s: "sanitizePapers E rawData w1 = (r, w3)"
        by (cases "sanitizePapers E rawData w1")
      show ?thesis
        using assms False Inr JArr s kbCatch_throws
        by (cases r) (simp_all add: knowledgeBaseExtract_def)
    qed (use assms False Inr kbCatch_throws in \<open>simp_all add: knowledgeBaseExtract_def\<close>)
  qed
qed

lemma knowledgeBase_throws_429:
  assumes "collectPapersFromKnowledgeBase E query afterDate w = (Inl k, w2)"
  shows "includesStr (message k) ''429''"
proof (cases "ai E")
  case False
  then show ?thesis using assms by (simp add: collectPapersFromKnowledgeBase_def)
next
  case True
  obtain r w1 where call: "kbCall E query afterDate w = (r, w1)"
    by (cases "kbCall E query afterDate w")
  show ?thesis
    using assms True call kbCatch_throws knowledgeBaseExtract_throws
    by (cases r) (simp_all add: collectPapersFromKnowledgeBase_def)
qed

lemma mapPapers_Cons:
  "mapPapers E (p # ps) w =
     (if p = JNull then (Inl (Error ''Cannot read properties of null (reading authors)''), w)
      else case sanitizeRecord E (clock w) (randomUUID E (nextId w)) p of
             Inl e \<Rightarrow> (Inl e, w\<lparr>nextId := Suc (nextId w)\<rparr>)
           | Inr q \<Rightarrow>
               (case fst (mapPapers E ps (w\<lparr>nextId := Suc (nextId w)\<rparr>)) of
                  Inl e \<Rightarrow> Inl e | Inr qs \<Rightarrow> Inr (q # qs),
                snd (mapPapers E ps (w\<lparr>nextId := Suc (nextId w)\<rparr>))))"
  by (simp add: generateId_def split: sum.split prod.split)

lemma mapPapers_frame:
  "requests (snd (mapPapers E raw w)) = requests w \<and> waits (snd (mapPapers E raw w)) = waits w
   \<and> storage (snd (mapPapers E raw w)) = storage w \<and> clock (snd (mapPapers E raw w)) = clock w"
proof (induction raw arbitrary: w)
  case Nil
  show ?case by simp
next
  case (Cons p ps)
  show ?case
    unfolding mapPapers_Cons
    using Cons.IH [of "w\<lparr>nextId := Suc (nextId w)\<rparr>"]
    by (simp split: sum.split)
qed

lemma sanitizePapers_world: "snd (sanitizePapers E raw w) = snd (mapPapers E raw w)"
  by (simp add: sanitizePapers_def Let_def split: prod.split sum.split)

lemma sanitizePapers_frame:
  "requests (snd (sanitizePapers E raw w)) = requests w
   \<and> waits (snd (sanitizePapers E raw w)) = waits w
   \<and> storage (snd (sanitizePapers E raw w)) = storage w
   \<and> clock (snd (sanitizePapers E raw w)) = clock w"
  unfolding sanitizePapers_world by (rule mapPapers_frame)

lemma kbCatch_world: "snd (kbCatch e w) = w"
  by (simp add: kbCatch_def)

lemma knowledgeBaseExtract_frame:
  "requests (snd (knowledgeBaseExtract E response w1)) = requests w1
   \<and> waits (snd (knowledgeBaseExtract E response w1)) = waits w1"
proof (cases "strOr (text response) [] = []")
  case True
  then show ?thesis by (simp add: knowledgeBaseExtract_def)
next
  case False
  show ?thesis
  proof (cases "JSON_parse E (trim E (strOr (text response) []))")
    case (Inl e)
    then show ?thesis using False by (simp add: knowledgeBaseExtract_def kbCatch_world)
  next
    case (Inr v)
    show ?thesis
    proof (cases v)
      case (JArr rawData)
      obtain r w3 where s: "sanitizePapers E rawData w1 = (r, w3)"
        by (cases "sanitizePapers E rawData w1")
      show ?thesis
        using False Inr JArr s sanitizePapers_frame [of E rawData w1]
        by (cases r) (simp_all add: knowledgeBaseExtract_def kbCatch_world)
    qed (use False Inr in \<open>simp_all add: knowledgeBaseExtract_def kbCatch_world\<close>)
  qed
qed

text \<open>
  The knowledge-base call leaves the trace of its one call through the retry wrapper: one
  or two requests, and a wait of 5 seconds between them.
\<close>

lemma knowledgeBase_trace:
  assumes ai: "ai E"
  shows "\<exists>n. (n = 1 \<or> n = 2)
     \<and> requests (snd (collectPapersFromKnowledgeBase E query afterDate w))
         = requests w @ replicate n (kbRequest query afterDate)
     \<and> waits (snd (collectPapersFromKnowledgeBase E query afterDate w))
         = waits w @ (if n = 2 then [5000] else [])"
proof -
  obtain r w1 where call: "kbCall E query afterDate w = (r, w1)"
    by (cases "kbCall E query afterDate w")
  from retry_model_trace [OF ai call] obtain n where
    n: "1 \<le> n" "int n \<le> max 1 0 + 1"
    and rq: "requests w1 = requests w @ replicate n (kbRequest query afterDate)"
    and wt: "waits w1 = waits w @ map (\<lambda>i. 5000 * 2 ^ i) [0..<n - 1]"
    by blast
  from n have n12: "n = 1 \<or> n = 2" by auto
  have wt': "waits w1 = waits w @ (if n = 2 then [5000] else [])"
    using n12 wt by auto
  have same: "requests (snd (collectPapersFromKnowledgeBase E query afterDate w)) = requests w1
      \<and> waits (snd (collectPapersFromKnowledgeBase E query afterDate w)) = waits w1"
    using ai call knowledgeBaseExtract_frame [of E _ w1]
    by (cases r) (simp_all add: collectPapersFromKnowledgeBase_def kbCatch_world)
  show ?thesis using n12 rq wt' same by (intro exI [of _ n]) simp
qed

lemma searchAndExtract_parse_failure:
  assumes "searchCall E query sources afterDate w = (Inr resp, w1)"
    and "strOr (text resp) [] \<noteq> []"
    and "JSON_parse E (fencedJson E (strOr (text resp) [])) = Inl pe"
  shows "searchAndExtract E query sources afterDate w
           = collectPapersFromKnowledgeBase E query afterDate w1"
  using assms by (simp add: searchAndExtract_def)

lemma isQuota_429: "includesStr (message k) ''429'' \<Longrightarrow> isQuota k"
  by (simp add: isQuota_def)

lemma searchAndExtract_empty:
  assumes "searchCall E query sources afterDate w = (Inr resp, w1)"
    and "strOr (text resp) [] = []"
  shows "searchAndExtract E query sources afterDate w
           = (Inl (Error ''Empty response from AI model''), w1)"
  using assms by (simp add: searchAndExtract_def)

lemma emptyResponse_not_quota: "\<not> isQuota (Error ''Empty response from AI model'')"
  by (simp add: isQuota_def Error_def message_def)

lemma searchAndExtract_not_array:
  assumes "searchCall E query sources afterDate w = (Inr resp, w1)"
    and "strOr (text resp) [] \<noteq> []"
    and "JSON_parse E (fencedJson E (strOr (text resp) [])) = Inr v"
    and "\<forall>raw. v \<noteq> JArr raw"
  shows "searchAndExtract E query sources afterDate w = (Inr [], w1)"
  using assms by (cases v) (simp_all add: searchAndExtract_def)

text \<open>
  C7, as the code has it. With the client configured, the pipeline makes one
  knowledge-base call, in the world the search call left, in each of three cases: the
  search call ends with an error that is not a quota error; the search call returns an
  empty reply; the search call returns a non-empty text on which \<^verbatim>\<open>JSON.parse\<close> throws.
  That call goes through the retry wrapper with a budget of 1 and a backoff of 5000 ms: it
  sends one or two knowledge-base requests and waits 5000 ms between them. What it returns,
  the pipeline returns. It throws only an error whose message contains \<^verbatim>\<open>429\<close>; the
  pipeline then throws the search call's own error in the first case, the error
  \<^verbatim>\<open>Empty response from AI model\<close> in the second, and the Quota-Exceeded error in the
  third. When the wrapped call fails with any other error the knowledge-base call returns
  the empty list; when it returns a reply, the knowledge-base call returns the sanitized
  records of that reply. A non-empty text that parses to a value that is not an array is no
  such case: the pipeline returns the empty list in the world the search call left, without
  a knowledge-base call.
\<close>

theorem collectPapersFromWeb_fallback:
  assumes ai: "ai E"
  shows "(((searchCall E query sources afterDate w = (Inl e, w1) \<and> \<not> isQuota e \<and> thrown = e)
           \<or> (searchCall E query sources afterDate w = (Inr resp, w1)
               \<and> strOr (text resp) [] = []
               \<and> thrown = Error ''Empty response from AI model'')
           \<or> (searchCall E query sources afterDate w = (Inr resp, w1)
               \<and> strOr (text resp) [] \<noteq> []
               \<and> JSON_parse E (fencedJson E (strOr (text resp) [])) = Inl pe
               \<and> thrown = quotaExceeded))
          \<longrightarrow>
            collectPapersFromWeb E query sources afterDate w
              = (case collectPapersFromKnowledgeBase E query afterDate w1 of
                   (Inr ps, w2) \<Rightarrow> (Inr ps, w2)
                 | (Inl k, w2) \<Rightarrow> (Inl thrown, w2))
            \<and> (\<forall>k w2. collectPapersFromKnowledgeBase E query afterDate w1 = (Inl k, w2)
                   \<longrightarrow> includesStr (message k) ''429'')
            \<and> (\<exists>n. (n = 1 \<or> n = 2)
                 \<and> requests (snd (collectPapersFromKnowledgeBase E query afterDate w1))
                     = requests w1 @ replicate n (kbRequest query afterDate)
                 \<and> waits (snd (collectPapersFromKnowledgeBase E query afterDate w1))
                     = waits w1 @ (if n = 2 then [5000] else []))
            \<and> (\<forall>k wk. kbCall E query afterDate w1 = (Inl k, wk)
                   \<longrightarrow> \<not> includesStr (message k) ''429''
                   \<longrightarrow> collectPapersFromKnowledgeBase E query afterDate w1 = (Inr [], wk))
            \<and> (\<forall>reply wk. kbCall E query afterDate w1 = (Inr reply, wk)
                   \<longrightarrow> collectPapersFromKnowledgeBase E query afterDate w1
                         = knowledgeBaseExtract E reply wk))
       \<and> (\<forall>reply wr v.
             searchCall E query sources afterDate w = (Inr reply, wr)
             \<and> strOr (text reply) [] \<noteq> []
             \<and> JSON_parse E (fencedJson E (strOr (text reply) [])) = Inr v
             \<and> (\<forall>raw. v \<noteq> JArr raw)
             \<longrightarrow> collectPapersFromWeb E query sources afterDate w = (Inr [], wr))"
proof -
  obtain r w2 where kb: "collectPapersFromKnowledgeBase E query afterDate w1 = (r, w2)"
    by (cases "collectPapersFromKnowledgeBase E query afterDate w1")
  have thrown_case: "collectPapersFromWeb E query sources afterDate w
           = (case collectPapersFromKnowledgeBase E query afterDate w1 of
                (Inr ps, w2) \<Rightarrow> (Inr ps, w2)
              | (Inl k, w2) \<Rightarrow> (Inl x, w2))"
    if "searchAndExtract E query sources afterDate w = (Inl x, w1)" and "\<not> isQuota x" for x
    using that ai kb by (cases r) (simp_all add: collectPapersFromWeb_def)
  have first: "collectPapersFromWeb E query sources afterDate w
           = (case collectPapersFromKnowledgeBase E query afterDate w1 of
                (Inr ps, w2) \<Rightarrow> (Inr ps, w2)
              | (Inl k, w2) \<Rightarrow> (Inl thrown, w2))"
    if trigger: "(searchCall E query sources afterDate w = (Inl e, w1) \<and> \<not> isQuota e \<and> thrown = e)
           \<or> (searchCall E query sources afterDate w = (Inr resp, w1)
               \<and> strOr (text resp) [] = []
               \<and> thrown = Error ''Empty response from AI model'')
           \<or> (searchCall E query sources afterDate w = (Inr resp, w1)
               \<and> strOr (text resp) [] \<noteq> []
               \<and> JSON_parse E (fencedJson E (strOr (text resp) [])) = Inl pe
               \<and> thrown = quotaExceeded)"
    using trigger
  proof (elim disjE)
    assume a: "searchCall E query sources afterDate w = (Inl e, w1) \<and> \<not> isQuota e \<and> thrown = e"
    then have s: "searchAndExtract E query sources afterDate w = (Inl e, w1)"
      using searchAndExtract_fail by blast
    from a have nq: "\<not> isQuota e" and th: "thrown = e" by simp_all
    show ?thesis unfolding th by (rule thrown_case [OF s nq])
  next
    assume b: "searchCall E query sources afterDate w = (Inr resp, w1)
               \<and> strOr (text resp) [] = []
               \<and> thrown = Error ''Empty response from AI model''"
    then have s: "searchAndExtract E query sources afterDate w
        = (Inl (Error ''Empty response from AI model''), w1)"
      using searchAndExtract_empty by blast
    from b have th: "thrown = Error ''Empty response from AI model''" by simp
    show ?thesis unfolding th by (rule thrown_case [OF s emptyResponse_not_quota])
  next
    assume c: "searchCall E query sources afterDate w = (Inr resp, w1)
           \<and> strOr (text resp) [] \<noteq> []
           \<and> JSON_parse E (fencedJson E (strOr (text resp) [])) = Inl pe
           \<and> thrown = quotaExceeded"
    then have s: "searchAndExtract E query sources afterDate w = (r, w2)"
      using searchAndExtract_parse_failure kb by metis
    show ?thesis
    proof (cases r)
      case (Inr ps)
      then show ?thesis using ai s kb by (simp add: collectPapersFromWeb_def)
    next
      case (Inl k)
      then have "isQuota k"
        using kb knowledgeBase_throws_429 isQuota_429 by blast
      then show ?thesis using ai s kb Inl c by (simp add: collectPapersFromWeb_def)
    qed
  qed
  have second: "\<forall>k w2. collectPapersFromKnowledgeBase E query afterDate w1 = (Inl k, w2)
              \<longrightarrow> includesStr (message k) ''429''"
    using knowledgeBase_throws_429 by blast
  have third: "\<exists>n. (n = 1 \<or> n = 2)
            \<and> requests (snd (collectPapersFromKnowledgeBase E query afterDate w1))
                = requests w1 @ replicate n (kbRequest query afterDate)
            \<and> waits (snd (collectPapersFromKnowledgeBase E query afterDate w1))
                = waits w1 @ (if n = 2 then [5000] else [])"
    by (rule knowledgeBase_trace [OF ai])
  have fourth: "\<forall>k wk. kbCall E query afterDate w1 = (Inl k, wk)
              \<longrightarrow> \<not> includesStr (message k) ''429''
              \<longrightarrow> collectPapersFromKnowledgeBase E query afterDate w1 = (Inr [], wk)"
    using ai by (simp add: collectPapersFromKnowledgeBase_def kbCatch_def)
  have fifth: "\<forall>reply wk. kbCall E query afterDate w1 = (Inr reply, wk)
              \<longrightarrow> collectPapersFromKnowledgeBase E query afterDate w1
                    = knowledgeBaseExtract E reply wk"
    using ai by (simp add: collectPapersFromKnowledgeBase_def)
  have not_array: "\<forall>reply wr v.
             searchCall E query sources afterDate w = (Inr reply, wr)
             \<and> strOr (text reply) [] \<noteq> []
             \<and> JSON_parse E (fencedJson E (strOr (text reply) [])) = Inr v
             \<and> (\<forall>raw. v \<noteq> JArr raw)
             \<longrightarrow> collectPapersFromWeb E query sources afterDate w = (Inr [], wr)"
  proof (intro allI impI)
    fix reply wr v
    assume h: "searchCall E query sources afterDate w = (Inr reply, wr)
             \<and> strOr (text reply) [] \<noteq> []
             \<and> JSON_parse E (fencedJson E (strOr (text reply) [])) = Inr v
             \<and> (\<forall>raw. v \<noteq> JArr raw)"
    then have "searchAndExtract E query sources afterDate w = (Inr [], wr)"
      using searchAndExtract_not_array [of E query sources afterDate w reply wr v] by blast
    then show "collectPapersFromWeb E query sources afterDate w = (Inr [], wr)"
      using ai by (simp add: collectPapersFromWeb_def)
  qed
  have fallback: "collectPapersFromWeb E query sources afterDate w
              = (case collectPapersFromKnowledgeBase E query afterDate w1 of
                   (Inr ps, w2) \<Rightarrow> (Inr ps, w2)
                 | (Inl k, w2) \<Rightarrow> (Inl thrown, w2))
            \<and> (\<forall>k w2. collectPapersFromKnowledgeBase E query afterDate w1 = (Inl k, w2)
                   \<longrightarrow> includesStr (message k) ''429'')
            \<and> (\<exists>n. (n = 1 \<or> n = 2)
                 \<and> requests (snd (collectPapersFromKnowledgeBase E query afterDate w1))
                     = requests w1 @ replicate n (kbRequest query afterDate)
                 \<and> waits (snd (collectPapersFromKnowledgeBase E query afterDate w1))
                     = waits w1 @ (if n = 2 then [5000] else []))
            \<and> (\<forall>k wk. kbCall E query afterDate w1 = (Inl k, wk)
                   \<longrightarrow> \<not> includesStr (message k) ''429''
                   \<longrightarrow> collectPapersFromKnowledgeBase E query afterDate w1 = (Inr [], wk))
            \<and> (\<forall>reply wk. kbCall E query afterDate w1 = (Inr reply, wk)
                   \<longrightarrow> collectPapersFromKnowledgeBase E query afterDate w1
                         = knowledgeBaseExtract E reply wk)"
    if t: "(searchCall E query sources afterDate w = (Inl e, w1) \<and> \<not> isQuota e \<and> thrown = e)
           \<or> (searchCall E query sources afterDate w = (Inr resp, w1)
               \<and> strOr (text resp) [] = []
               \<and> thrown = Error ''Empty response from AI model'')
           \<or> (searchCall E query sources afterDate w = (Inr resp, w1)
               \<and> strOr (text resp) [] \<noteq> []
               \<and> JSON_parse E (fencedJson E (strOr (text resp) [])) = Inl pe
               \<and> thrown = quotaExceeded)"
    using first [OF t] second third fourth fifth by (intro conjI)
  show ?thesis
    apply (rule conjI)
     apply (rule impI)
     apply (erule fallback)
    apply (rule not_array)
    done
qed

lemma searchDown_search:
  "searchCall searchDownEnv ''fraud'' [] None world0
     = (Inl (Error ''fetch failed''), world0\<lparr>requests := [searchRequest ''fraud'' [] None]\<rparr>)"
  by (simp add: retryOperation.simps modelOperation_def callModel_def searchDownEnv_def
      exampleEnv_def world0_def isTransient_def Error_def message_def)

lemma searchDown_knowledgeBase:
  "collectPapersFromKnowledgeBase searchDownEnv ''fraud'' None
       (world0\<lparr>requests := [searchRequest ''fraud'' [] None]\<rparr>)
     = (Inl tooManyRequests,
        world0\<lparr>clock := 5000,
               requests := [searchRequest ''fraud'' [] None, kbRequest ''fraud'' None,
                            kbRequest ''fraud'' None],
               waits := [5000]\<rparr>)"
  by (simp add: collectPapersFromKnowledgeBase_def kbCatch_def retryOperation.simps
      modelOperation_def callModel_def searchDownEnv_def exampleEnv_def world0_def
      isTransient_def tooManyRequests_def message_def delay_def)

text \<open>
  C7, as stated, fails after a failed search: here the search call fails with a network
  error, the knowledge-base call throws a quota error, and the pipeline throws the network
  error, not the quota error.
\<close>

theorem collectPapersFromWeb_fallback_counterexample:
  "searchCall searchDownEnv ''fraud'' [] None world0
     = (Inl (Error ''fetch failed''), world0\<lparr>requests := [searchRequest ''fraud'' [] None]\<rparr>)
   \<and> \<not> isQuota (Error ''fetch failed'')
   \<and> fst (collectPapersFromKnowledgeBase searchDownEnv ''fraud'' None
            (world0\<lparr>requests := [searchRequest ''fraud'' [] None]\<rparr>)) = Inl tooManyRequests
   \<and> includesStr (message tooManyRequests) ''429''
   \<and> fst (collectPapersFromWeb searchDownEnv ''fraud'' [] None world0) = Inl (Error ''fetch failed'')
   \<and> \<not> includesStr (message (Error ''fetch failed'')) ''429''"
proof -
  have ai: "ai searchDownEnv" by (simp add: searchDownEnv_def exampleEnv_def)
  have nq: "\<not> isQuota (Error ''fetch failed'')" by (simp add: isQuota_def Error_def message_def)
  have s: "searchAndExtract searchDownEnv ''fraud'' [] None world0
      = (Inl (Error ''fetch failed''), world0\<lparr>requests := [searchRequest ''fraud'' [] None]\<rparr>)"
    by (rule searchAndExtract_fail [OF searchDown_search])
  have r: "fst (collectPapersFromWeb searchDownEnv ''fraud'' [] None world0)
      = Inl (Error ''fetch failed'')"
    using ai nq s searchDown_knowledgeBase by (simp add: collectPapersFromWeb_def)
  have m: "includesStr (message tooManyRequests) ''429''" by (simp add: tooManyRequests_def message_def)
  have n: "\<not> includesStr (message (Error ''fetch failed'')) ''429''" by (simp add: Error_def message_def)
  show ?thesis using searchDown_search nq searchDown_knowledgeBase r m n by simp
qed

lemma parseDown_search:
  "searchCall parseDownEnv ''fraud'' [] None world0
     = (Inr \<lparr>text = Some ''no json here''\<rparr>, world0\<lparr>requests := [searchRequest ''fraud'' [] None]\<rparr>)"
  by (simp add: retryOperation.simps modelOperation_def callModel_def parseDownEnv_def
      exampleEnv_def world0_def)

lemma parseDown_knowledgeBase:
  "collectPapersFromKnowledgeBase parseDownEnv ''fraud'' None
       (world0\<lparr>requests := [searchRequest ''fraud'' [] None]\<rparr>)
     = (Inl tooManyRequests,
        world0\<lparr>clock := 5000,
               requests := [searchRequest ''fraud'' [] None, kbRequest ''fraud'' None,
                            kbRequest ''fraud'' None],
               waits := [5000]\<rparr>)"
  by (simp add: collectPapersFromKnowledgeBase_def kbCatch_def retryOperation.simps
      modelOperation_def callModel_def parseDownEnv_def exampleEnv_def world0_def
      isTransient_def tooManyRequests_def message_def delay_def)

lemma emptyReply_search:
  "searchCall emptyReplyEnv ''fraud'' [] None world0
     = (Inr \<lparr>text = None\<rparr>, world0\<lparr>requests := [searchRequest ''fraud'' [] None]\<rparr>)"
  by (simp add: retryOperation.simps modelOperation_def callModel_def emptyReplyEnv_def
      exampleEnv_def world0_def)

lemma emptyReply_knowledgeBase:
  "collectPapersFromKnowledgeBase emptyReplyEnv ''fraud'' None
       (world0\<lparr>requests := [searchRequest ''fraud'' [] None]\<rparr>)
     = (Inl tooManyRequests,
        world0\<lparr>clock := 5000,
               requests := [searchRequest ''fraud'' [] None, kbRequest ''fraud'' None,
                            kbRequest ''fraud'' None],
               waits := [5000]\<rparr>)"
  by (simp add: collectPapersFromKnowledgeBase_def kbCatch_def retryOperation.simps
      modelOperation_def callModel_def emptyReplyEnv_def exampleEnv_def world0_def
      isTransient_def tooManyRequests_def message_def delay_def)

lemma objectReply_search:
  "searchCall objectReplyEnv ''fraud'' [] None world0
     = (Inr \<lparr>text = Some ''{}''\<rparr>, world0\<lparr>requests := [searchRequest ''fraud'' [] None]\<rparr>)"
  by (simp add: retryOperation.simps modelOperation_def callModel_def objectReplyEnv_def
      exampleEnv_def world0_def)

theorem collectPapersFromWeb_fallback_witness:
  "collectPapersFromWeb parseDownEnv ''fraud'' [] None world0
     = (Inl quotaExceeded,
        world0\<lparr>clock := 5000,
               requests := [searchRequest ''fraud'' [] None, kbRequest ''fraud'' None,
                            kbRequest ''fraud'' None],
               waits := [5000]\<rparr>)
   \<and> collectPapersFromWeb emptyReplyEnv ''fraud'' [] None world0
     = (Inl (Error ''Empty response from AI model''),
        world0\<lparr>clock := 5000,
               requests := [searchRequest ''fraud'' [] None, kbRequest ''fraud'' None,
                            kbRequest ''fraud'' None],
               waits := [5000]\<rparr>)
   \<and> collectPapersFromWeb objectReplyEnv ''fraud'' [] None world0
     = (Inr [], world0\<lparr>requests := [searchRequest ''fraud'' [] None]\<rparr>)"
proof -
  let ?w1 = "world0\<lparr>requests := [searchRequest ''fraud'' [] None]\<rparr>"
  let ?pe = "Error ''Unexpected token''"
  have parse_case: "collectPapersFromWeb parseDownEnv ''fraud'' [] None world0
     = (Inl quotaExceeded,
        world0\<lparr>clock := 5000,
               requests := [searchRequest ''fraud'' [] None, kbRequest ''fraud'' None,
                            kbRequest ''fraud'' None],
               waits := [5000]\<rparr>)"
  proof -
    let ?resp = "\<lparr>text = Some ''no json here''\<rparr>"
    have ai: "ai parseDownEnv" by (simp add: parseDownEnv_def exampleEnv_def)
    have t: "strOr (text ?resp) [] \<noteq> []" by (simp add: strOr_def)
    have p: "JSON_parse parseDownEnv (fencedJson parseDownEnv (strOr (text ?resp) [])) = Inl ?pe"
      by (simp add: parseDownEnv_def exampleEnv_def)
    have c: "searchCall parseDownEnv ''fraud'' [] None world0 = (Inr ?resp, ?w1)
        \<and> strOr (text ?resp) [] \<noteq> []
        \<and> JSON_parse parseDownEnv (fencedJson parseDownEnv (strOr (text ?resp) [])) = Inl ?pe
        \<and> quotaExceeded = quotaExceeded"
      by (intro conjI parseDown_search t p refl)
    have trigger:
      "(searchCall parseDownEnv ''fraud'' [] None world0 = (Inl ?pe, ?w1)
          \<and> \<not> isQuota ?pe \<and> quotaExceeded = ?pe)
       \<or> (searchCall parseDownEnv ''fraud'' [] None world0 = (Inr ?resp, ?w1)
           \<and> strOr (text ?resp) [] = []
           \<and> quotaExceeded = Error ''Empty response from AI model'')
       \<or> (searchCall parseDownEnv ''fraud'' [] None world0 = (Inr ?resp, ?w1)
           \<and> strOr (text ?resp) [] \<noteq> []
           \<and> JSON_parse parseDownEnv (fencedJson parseDownEnv (strOr (text ?resp) [])) = Inl ?pe
           \<and> quotaExceeded = quotaExceeded)"
      by (rule disjI2, rule disjI2) (rule c)
    have "collectPapersFromWeb parseDownEnv ''fraud'' [] None world0
        = (case collectPapersFromKnowledgeBase parseDownEnv ''fraud'' None ?w1 of
             (Inr ps, w2) \<Rightarrow> (Inr ps, w2)
           | (Inl k, w2) \<Rightarrow> (Inl quotaExceeded, w2))"
      by (rule collectPapersFromWeb_fallback [OF ai, THEN conjunct1, THEN mp, OF trigger,
            THEN conjunct1])
    then show ?thesis by (simp add: parseDown_knowledgeBase)
  qed
  have empty_case: "collectPapersFromWeb emptyReplyEnv ''fraud'' [] None world0
     = (Inl (Error ''Empty response from AI model''),
        world0\<lparr>clock := 5000,
               requests := [searchRequest ''fraud'' [] None, kbRequest ''fraud'' None,
                            kbRequest ''fraud'' None],
               waits := [5000]\<rparr>)"
  proof -
    let ?resp = "\<lparr>text = None\<rparr>"
    let ?thrown = "Error ''Empty response from AI model''"
    have ai: "ai emptyReplyEnv" by (simp add: emptyReplyEnv_def exampleEnv_def)
    have t: "strOr (text ?resp) [] = []" by (simp add: strOr_def)
    have b: "searchCall emptyReplyEnv ''fraud'' [] None world0 = (Inr ?resp, ?w1)
        \<and> strOr (text ?resp) [] = [] \<and> ?thrown = Error ''Empty response from AI model''"
      by (intro conjI emptyReply_search t refl)
    have trigger:
      "(searchCall emptyReplyEnv ''fraud'' [] None world0 = (Inl ?pe, ?w1)
          \<and> \<not> isQuota ?pe \<and> ?thrown = ?pe)
       \<or> (searchCall emptyReplyEnv ''fraud'' [] None world0 = (Inr ?resp, ?w1)
           \<and> strOr (text ?resp) [] = []
           \<and> ?thrown = Error ''Empty response from AI model'')
       \<or> (searchCall emptyReplyEnv ''fraud'' [] None world0 = (Inr ?resp, ?w1)
           \<and> strOr (text ?resp) [] \<noteq> []
           \<and> JSON_parse emptyReplyEnv (fencedJson emptyReplyEnv (strOr (text ?resp) [])) = Inl ?pe
           \<and> ?thrown = quotaExceeded)"
      by (rule disjI2, rule disjI1) (rule b)
    have "collectPapersFromWeb emptyReplyEnv ''fraud'' [] None world0
        = (case collectPapersFromKnowledgeBase emptyReplyEnv ''fraud'' None ?w1 of
             (Inr ps, w2) \<Rightarrow> (Inr ps, w2)
           | (Inl k, w2) \<Rightarrow> (Inl ?thrown, w2))"
      by (rule collectPapersFromWeb_fallback [OF ai, THEN conjunct1, THEN mp, OF trigger,
            THEN conjunct1])
    then show ?thesis by (simp add: emptyReply_knowledgeBase)
  qed
  have object_case: "collectPapersFromWeb objectReplyEnv ''fraud'' [] None world0
     = (Inr [], world0\<lparr>requests := [searchRequest ''fraud'' [] None]\<rparr>)"
  proof -
    let ?resp = "\<lparr>text = Some ''{}''\<rparr>"
    have ai: "ai objectReplyEnv" by (simp add: objectReplyEnv_def exampleEnv_def)
    have t: "strOr (text ?resp) [] \<noteq> []" by (simp add: strOr_def)
    have p: "JSON_parse objectReplyEnv (fencedJson objectReplyEnv (strOr (text ?resp) []))
        = Inr (JObj [])"
      by (simp add: objectReplyEnv_def exampleEnv_def)
    have n: "\<forall>raw. JObj [] \<noteq> JArr raw" by simp
    have h: "searchCall objectReplyEnv ''fraud'' [] None world0 = (Inr ?resp, ?w1)
        \<and> strOr (text ?resp) [] \<noteq> []
        \<and> JSON_parse objectReplyEnv (fencedJson objectReplyEnv (strOr (text ?resp) []))
            = Inr (JObj [])
        \<and> (\<forall>raw. JObj [] \<noteq> JArr raw)"
      by (intro conjI objectReply_search t p n)
    show ?thesis
      by (rule collectPapersFromWeb_fallback [OF ai, THEN conjunct2, THEN spec, THEN spec,
            THEN spec, THEN mp, OF h])
  qed
  show ?thesis using parse_case empty_case object_case by (intro conjI)
qed

section \<open>Query optimization\<close>

text \<open>
  On the Gemini path the optimization degrades to the topic: without a client nothing is
  sent and the topic comes back; with a client one request is sent, never through the retry
  wrapper (no wait), and the topic comes back when the request fails.
\<close>

lemma optimizeSearchQuery_gemini:
  assumes "provider (getSettings w) = Gemini"
  shows "waits (snd (optimizeSearchQuery E topic dateRange w)) = waits w
       \<and> (\<not> ai E \<longrightarrow> optimizeSearchQuery E topic dateRange w = (topic, w))
       \<and> (ai E \<longrightarrow> requests (snd (optimizeSearchQuery E topic dateRange w))
                     = requests w @ [OptimizeRequest (optimizePrompt topic dateRange)])
       \<and> (\<forall>e. generateContent E (length (requests w)) (OptimizeRequest (optimizePrompt topic dateRange))
                 = Inl e \<longrightarrow> fst (optimizeSearchQuery E topic dateRange w) = topic)"
  using assms
  by (simp add: optimizeSearchQuery_def Let_def callModel_def split: sum.split)

text \<open>
  C8. With the Groq provider selected the optimization does not degrade to the topic: when
  the API key is missing it returns the text of the error message, and when the request
  fails it returns the provider error text.
\<close>

theorem optimizeSearchQuery_groq_returns_error_text:
  "optimizeSearchQuery exampleEnv ''Fraud Detection LLM'' ''Past Year'' groqNoKeyWorld
     = (''Error: Groq API Key is missing in Settings.'', groqNoKeyWorld)
   \<and> fst (optimizeSearchQuery groqDownEnv ''Fraud Detection LLM'' ''Past Year'' groqKeyWorld)
     = ''Provider Error: Failed to fetch''"
  by (simp add: optimizeSearchQuery_def callGroqAPI_def getSettings_def strOr_def
      groqNoKeyWorld_def groqKeyWorld_def groqDownEnv_def exampleEnv_def world0_def
      emptyStorage_def DEFAULT_SETTINGS_def Let_def)

end
